theory Spec2Isabelle
  imports Complex_Main "HOL-Library.AList" "HOL-Library.Multiset" "HOL-Library.Product_Lexorder"
begin

section \<open>Python exceptions\<close>

text \<open>
  An exception that leaves a function is a value on the left of a sum; a handler is a
  case distinction on it.
\<close>

datatype py_error = RuntimeError | IndexError | TypeError | ValueError | KeyError
  | InvalidPrefValue

section \<open>airq/lib/client\_preferences.py\<close>

subsection \<open>IntegerPreference\<close>

record IntegerPreference =
  display_name :: string
  description :: string
  default :: int
  min_value :: "int option"
  max_value :: "int option"

text \<open>Truth value of an \<open>Optional[int]\<close>: \<open>None\<close> and \<open>0\<close> are falsy.\<close>

definition truthy :: "int option \<Rightarrow> bool" where
  "truthy v = (case v of None \<Rightarrow> False | Some n \<Rightarrow> n \<noteq> 0)"

text \<open>
  \<open>IntegerPreference.__init__\<close>: the fields are stored, then the guard on the two bounds
  runs. The inner comparison is \<open>self._max_value >= self._max_value\<close>, as written in the
  source.
\<close>

definition IntegerPreference_init ::
  "string \<Rightarrow> string \<Rightarrow> int \<Rightarrow> int option \<Rightarrow> int option \<Rightarrow> py_error + IntegerPreference" where
  "IntegerPreference_init dn ds df mn mx =
     (let self = \<lparr>display_name = dn, description = ds, default = df,
                   min_value = mn, max_value = mx\<rparr>
      in if truthy (min_value self) \<and> truthy (max_value self)
         then (if the (max_value self) \<ge> the (max_value self)
               then Inl RuntimeError else Inr self)
         else Inr self)"

subsection \<open>ChoicesPreference.clean\<close>

text \<open>
  Indexing a Python list with an integer: a negative index counts from the end, and an
  index out of range raises \<open>IndexError\<close>.
\<close>

definition list_getitem :: "'a list \<Rightarrow> int \<Rightarrow> py_error + 'a" where
  "list_getitem xs i =
     (if 0 \<le> i
      then (if i < int (length xs) then Inr (xs ! nat i) else Inl IndexError)
      else (if - int (length xs) \<le> i then Inr (xs ! nat (int (length xs) + i))
            else Inl IndexError))"

text \<open>
  The body of the \<open>try\<close> block of \<open>clean\<close>. The builtin \<open>int\<close> applied to a \<open>str\<close>
  either yields an integer or raises \<open>ValueError\<close>; it is the parameter \<open>int_of\<close>, with
  \<open>None\<close> for the \<open>ValueError\<close>.
\<close>

definition clean_try :: "(string \<Rightarrow> int option) \<Rightarrow> 'a list \<Rightarrow> string \<Rightarrow> py_error + 'a option" where
  "clean_try int_of choices user_input =
     (case int_of user_input of
        None \<Rightarrow> Inl ValueError
      | Some idx \<Rightarrow>
          if idx \<le> 0 then Inr None
          else (case list_getitem choices (idx - 1) of
                  Inl e \<Rightarrow> Inl e
                | Inr c \<Rightarrow> Inr (Some c)))"

text \<open>
  \<open>ChoicesPreference.clean\<close>: \<open>except (IndexError, TypeError, ValueError): return None\<close>;
  any other exception leaves the function.
\<close>

definition ChoicesPreference_clean ::
  "(string \<Rightarrow> int option) \<Rightarrow> 'a list \<Rightarrow> string \<Rightarrow> py_error + 'a option" where
  "ChoicesPreference_clean int_of choices user_input =
     (case clean_try int_of choices user_input of
        Inl e \<Rightarrow> if e \<in> {IndexError, TypeError, ValueError} then Inr None else Inl e
      | Inr r \<Rightarrow> Inr r)"

text \<open>
  A decimal reading of ASCII strings in the manner of Python's \<open>int\<close>: surrounding
  white space is dropped, one sign is allowed, and digits may be grouped by single
  underscores. It instantiates the parameter \<open>int_of\<close> on concrete inputs.
\<close>

definition is_space :: "char \<Rightarrow> bool" where
  "is_space c = (c \<in> set [CHR '' '', CHR 0x09, CHR 0x0A, CHR 0x0B, CHR 0x0C, CHR 0x0D])"

definition digit_of :: "char \<Rightarrow> nat option" where
  "digit_of c = (let n = (of_char c :: nat) in if 48 \<le> n \<and> n \<le> 57 then Some (n - 48) else None)"

fun digits_from :: "nat \<Rightarrow> string \<Rightarrow> nat option" where
  "digits_from acc [] = Some acc"
| "digits_from acc [c] =
     (case digit_of c of None \<Rightarrow> None | Some d \<Rightarrow> Some (10 * acc + d))"
| "digits_from acc (c # c' # cs) =
     (case digit_of c of
        Some d \<Rightarrow> digits_from (10 * acc + d) (c' # cs)
      | None \<Rightarrow>
          if c = CHR ''_'' then
            (case digit_of c' of None \<Rightarrow> None | Some d \<Rightarrow> digits_from (10 * acc + d) cs)
          else None)"

definition digits :: "string \<Rightarrow> nat option" where
  "digits s = (case s of [] \<Rightarrow> None
               | c # cs \<Rightarrow> (case digit_of c of None \<Rightarrow> None | Some d \<Rightarrow> digits_from d cs))"

definition strip :: "string \<Rightarrow> string" where
  "strip s = rev (dropWhile is_space (rev (dropWhile is_space s)))"

definition int_of_str :: "string \<Rightarrow> int option" where
  "int_of_str s =
     (case strip s of
        [] \<Rightarrow> None
      | c # cs \<Rightarrow>
          if c = CHR ''-'' then map_option (\<lambda>n. - int n) (digits cs)
          else if c = CHR ''+'' then map_option int (digits cs)
          else map_option int (digits (c # cs)))"

section \<open>airq/commands/quality.py\<close>

subsection \<open>Tables\<close>

text \<open>
  Modelled from the spec: the rows of the tables behind the ORM models \<open>Zipcode\<close>,
  \<open>City\<close> and \<open>Metric\<close>, whose declarations are not among the sources. A zip code
  has an identifier, a zip-code string, a city, a latitude, a longitude and a geohash
  string; a reading snapshot has the zip code it belongs to, a timestamp, a
  concentration value and a count of contributing sensors. Latitudes, longitudes,
  distances and concentrations are real numbers (no NaN).
\<close>

record Zipcode =
  zip_id :: int
  zip_zipcode :: string
  zip_city_id :: int
  zip_latitude :: real
  zip_longitude :: real
  zip_geohash :: string

record City =
  c_id :: int
  c_name :: string

record Metric =
  metric_zipcode_id :: int
  metric_timestamp :: int
  metric_value :: real
  metric_num_sensors :: int

record database =
  zipcodes :: "Zipcode list"
  cities :: "City list"
  metrics :: "Metric list"

subsection \<open>Constants and AirQualityMetrics\<close>

definition MAX_NEARBY_ZIPCODE_RADIUS_KM :: real where
  "MAX_NEARBY_ZIPCODE_RADIUS_KM = 150"

definition MAX_NUM_NEARBY_ZIPCODES :: nat where
  "MAX_NUM_NEARBY_ZIPCODES = 200"

record AirQualityMetrics =
  zipcode :: string
  city_name :: string
  distance :: real
  average_pm25 :: real
  num_readings :: int

text \<open>
  The property \<open>pm25_level\<close>. \<open>Pm25.from_measurement\<close> lives in \<open>airq.lib.readings\<close>,
  which is not among the sources: it is the parameter \<open>from_measurement\<close>, a function
  from a concentration into an ordered enumeration.
\<close>

definition pm25_level :: "(real \<Rightarrow> 'l) \<Rightarrow> AirQualityMetrics \<Rightarrow> 'l" where
  "pm25_level from_measurement m = from_measurement (average_pm25 m)"

subsection \<open>\_get\_recommendations\<close>

text \<open>
  The local \<open>lower_pm25_metrics\<close>: the comprehension, \<open>sorted\<close> with the key
  \<open>(m.pm25_level, m.distance)\<close> (a stable sort; tuples compare lexicographically) and the
  slice \<open>[:num_desired]\<close> with \<open>num_desired = 3\<close>.
\<close>

definition lower_pm25_metrics ::
  "(real \<Rightarrow> 'l::linorder) \<Rightarrow> AirQualityMetrics list \<Rightarrow> string \<Rightarrow> 'l \<Rightarrow> AirQualityMetrics list" where
  "lower_pm25_metrics from_measurement ms zc pm25_cutoff =
     take 3 (sort_key (\<lambda>m. (pm25_level from_measurement m, distance m))
               [m \<leftarrow> ms. zipcode m \<noteq> zc \<and> pm25_level from_measurement m < pm25_cutoff])"

text \<open>
  The returned message: nothing when the selection is empty, else a heading and one
  line per selected entry, in the order of the selection. \<open>display\<close> is the enumeration's
  display string, a parameter as well.
\<close>

definition get_recommendations ::
  "(real \<Rightarrow> 'l::linorder) \<Rightarrow> ('l \<Rightarrow> string) \<Rightarrow> AirQualityMetrics list \<Rightarrow> string \<Rightarrow> 'l
     \<Rightarrow> string list" where
  "get_recommendations from_measurement display ms zc pm25_cutoff =
     (let sel = lower_pm25_metrics from_measurement ms zc pm25_cutoff
      in if sel \<noteq> []
         then ''Try these other places near you for better air quality:''
              # map (\<lambda>m. '' - '' @ city_name m @ '' '' @ zipcode m @ '': ''
                          @ display (pm25_level from_measurement m)) sel
         else [])"

subsection \<open>\_get\_nearby\_zipcodes\<close>

text \<open>
  A Python \<open>dict\<close> is an association list in insertion order; \<open>d[k] = v\<close> is
  \<open>AList.update k v d\<close> (the value is replaced in place when the key is there, the pair is
  appended otherwise), and \<open>len(d)\<close> is the length of the list.
\<close>

type_synonym zipcodes_map = "(int \<times> real) list"

text \<open>
  \<open>haversine_distance(lon1, lat1, lon2, lat2)\<close> lives in \<open>airq.lib.geo\<close>, which is not
  among the sources: it is a parameter of the search.
\<close>

type_synonym haversine = "real \<Rightarrow> real \<Rightarrow> real \<Rightarrow> real \<Rightarrow> real"

text \<open>
  Modelled from the spec: the column \<open>geohash_bit_i\<close> of a row (the \<open>Zipcode\<close> model is
  not among the sources) holds the \<open>i\<close>-th character of the row's geohash, counting from
  1, and nothing when the geohash is shorter.
\<close>

definition geohash_bit :: "nat \<Rightarrow> Zipcode \<Rightarrow> char option" where
  "geohash_bit i r =
     (if 1 \<le> i \<and> i \<le> length (zip_geohash r) then Some (zip_geohash r ! (i - 1)) else None)"

text \<open>
  The query of one round: one filter \<open>geohash_bit_i == c\<close> per character of the working
  prefix, the filter on the identifiers already collected when the map is not empty, and
  the entities \<open>(id, latitude, longitude)\<close>. The rows come in table order.
\<close>

definition geohash_query :: "database \<Rightarrow> string \<Rightarrow> zipcodes_map \<Rightarrow> (int \<times> real \<times> real) list" where
  "geohash_query db gh zm =
     (let q1 = filter (\<lambda>r. list_all (\<lambda>(i, c). geohash_bit i r = Some c) (List.enumerate 1 gh))
                      (zipcodes db);
          q2 = (if zm \<noteq> [] then filter (\<lambda>r. zip_id r \<notin> set (map fst zm)) q1 else q1)
      in map (\<lambda>r. (zip_id r, zip_latitude r, zip_longitude r)) q2)"

text \<open>The list the \<open>for\<close> loop runs over: \<open>sorted([...], key=lambda t: t[1])\<close>.\<close>

definition matches_by_distance ::
  "haversine \<Rightarrow> database \<Rightarrow> Zipcode \<Rightarrow> string \<Rightarrow> zipcodes_map \<Rightarrow> (int \<times> real) list" where
  "matches_by_distance hav db z gh zm =
     sort_key snd
       (map (\<lambda>r. (fst r, hav (snd (snd r)) (fst (snd r)) (zip_longitude z) (zip_latitude z)))
            (geohash_query db gh zm))"

text \<open>
  The \<open>for\<close> loop. \<open>Return m\<close>: the function returned \<open>m\<close> from inside the loop;
  \<open>Next m\<close>: the loop ran to its end with the map \<open>m\<close>.
\<close>

datatype 'a flow = Return 'a | Next 'a

fun flow_val :: "'a flow \<Rightarrow> 'a" where
  "flow_val (Return x) = x"
| "flow_val (Next x) = x"

fun for_matches :: "(int \<times> real) list \<Rightarrow> zipcodes_map \<Rightarrow> zipcodes_map flow" where
  "for_matches [] zm = Next zm"
| "for_matches ((zipcode_id, d) # rest) zm =
     (let zm' = (if d \<le> MAX_NEARBY_ZIPCODE_RADIUS_KM then AList.update zipcode_id d zm else zm)
      in if length zm' \<ge> MAX_NUM_NEARBY_ZIPCODES then Return zm' else for_matches rest zm')"

text \<open>
  The \<open>while gh:\<close> loop; \<open>gh.pop()\<close> is \<open>butlast\<close>. Beside the map, the loop reports the
  working prefixes of the rounds it ran, in order: a record of the run that the source
  does not keep and that no result depends on.
\<close>

function while_gh ::
  "haversine \<Rightarrow> database \<Rightarrow> Zipcode \<Rightarrow> string \<Rightarrow> zipcodes_map \<Rightarrow> zipcodes_map \<times> string list" where
  "while_gh hav db z gh zm =
     (if gh = [] then (zm, [])
      else (case for_matches (matches_by_distance hav db z gh zm) zm of
              Return zm' \<Rightarrow> (zm', [gh])
            | Next zm' \<Rightarrow>
                (case while_gh hav db z (butlast gh) zm' of
                   (res, rounds) \<Rightarrow> (res, gh # rounds))))"
  by pat_completeness auto
termination
  by (relation "measure (\<lambda>(hav, db, z, gh, zm). length gh)") auto

declare while_gh.simps [simp del]

definition get_nearby_zipcodes :: "haversine \<Rightarrow> database \<Rightarrow> Zipcode \<Rightarrow> zipcodes_map" where
  "get_nearby_zipcodes hav db z =
     fst (while_gh hav db z (zip_geohash z) (AList.update (zip_id z) 0 []))"

definition get_nearby_zipcodes_rounds :: "haversine \<Rightarrow> database \<Rightarrow> Zipcode \<Rightarrow> string list" where
  "get_nearby_zipcodes_rounds hav db z =
     snd (while_gh hav db z (zip_geohash z) (AList.update (zip_id z) 0 []))"

subsection \<open>One round of the search in the words of the spec\<close>

text \<open>
  The spec's step 3, read on its own: a match within 150 km is added to the candidate
  set, any other match is dropped. \<open>spec_after ms zm j\<close> is the candidate set once the
  first \<open>j\<close> matches of the list \<open>ms\<close> have been considered, starting from \<open>zm\<close>.
\<close>

definition spec_add_match :: "zipcodes_map \<Rightarrow> int \<times> real \<Rightarrow> zipcodes_map" where
  "spec_add_match zm m = (if snd m \<le> 150 then AList.update (fst m) (snd m) zm else zm)"

definition spec_after :: "(int \<times> real) list \<Rightarrow> zipcodes_map \<Rightarrow> nat \<Rightarrow> zipcodes_map" where
  "spec_after ms zm j = foldl spec_add_match zm (take j ms)"

subsection \<open>\_get\_air\_quality\_metrics\_for\_zipcodes\<close>

text \<open>
  The subquery \<open>max_ts\<close>: one row per \<open>zipcode_id\<close> of the metrics table
  (\<open>group_by\<close>), with \<open>func.max(Metric.timestamp)\<close> over the rows of that zip code.
\<close>

definition group_max :: "Metric list \<Rightarrow> int \<Rightarrow> int" where
  "group_max ms k =
     Max (set (map metric_timestamp (filter (\<lambda>r. metric_zipcode_id r = k) ms)))"

definition max_ts :: "Metric list \<Rightarrow> (int \<times> int) list" where
  "max_ts ms = map (\<lambda>k. (k, group_max ms k)) (remdups (map metric_zipcode_id ms))"

text \<open>
  The query: metrics joined with \<open>max_ts\<close> on zip code and timestamp, joined with the
  zip codes on \<open>Metric.zipcode_id = Zipcode.id\<close>, joined with the cities on
  \<open>Zipcode.city_id = City.id\<close> (inner joins), filtered by the keys of the input map.
\<close>

definition metrics_query ::
  "database \<Rightarrow> zipcodes_map \<Rightarrow> (int \<times> real \<times> int \<times> string \<times> string) list" where
  "metrics_query db zm =
     [(metric_zipcode_id r, metric_value r, metric_num_sensors r, zip_zipcode z, c_name c).
        r \<leftarrow> metrics db,
        s \<leftarrow> max_ts (metrics db), metric_zipcode_id r = fst s \<and> metric_timestamp r = snd s,
        z \<leftarrow> zipcodes db, metric_zipcode_id r = zip_id z,
        c \<leftarrow> cities db, zip_city_id z = c_id c,
        zip_id z \<in> set (map fst zm)]"

text \<open>
  The loop over the rows. \<open>zipcodes_map[zipcode_id]\<close> raises \<open>KeyError\<close> for a key that
  is not in the map.
\<close>

fun build_aqi_metrics ::
  "(int \<times> real \<times> int \<times> string \<times> string) list \<Rightarrow> zipcodes_map
     \<Rightarrow> (int \<times> AirQualityMetrics) list \<Rightarrow> py_error + (int \<times> AirQualityMetrics) list" where
  "build_aqi_metrics [] zm aqi_metrics = Inr aqi_metrics"
| "build_aqi_metrics ((zipcode_id, pm25, num_sensors, zc, cn) # rows) zm aqi_metrics =
     (case map_of zm zipcode_id of
        None \<Rightarrow> Inl KeyError
      | Some d \<Rightarrow>
          build_aqi_metrics rows zm
            (AList.update zipcode_id
               \<lparr>zipcode = zc, city_name = cn, distance = d, average_pm25 = pm25,
                num_readings = num_sensors\<rparr> aqi_metrics))"

definition get_air_quality_metrics_for_zipcodes ::
  "database \<Rightarrow> zipcodes_map \<Rightarrow> py_error + (int \<times> AirQualityMetrics) list" where
  "get_air_quality_metrics_for_zipcodes db zm = build_aqi_metrics (metrics_query db zm) zm []"

text \<open>
  The words of the claims on the aggregator: a zip code has a reading snapshot; a zip
  code has a row of its own whose city has a row; a snapshot is one of the latest of its
  zip code.
\<close>

definition has_snapshot :: "database \<Rightarrow> int \<Rightarrow> bool" where
  "has_snapshot db k = list_ex (\<lambda>r. metric_zipcode_id r = k) (metrics db)"

definition has_names :: "database \<Rightarrow> int \<Rightarrow> bool" where
  "has_names db k =
     list_ex (\<lambda>z. zip_id z = k \<and> list_ex (\<lambda>c. c_id c = zip_city_id z) (cities db))
       (zipcodes db)"

definition latest_of :: "database \<Rightarrow> int \<Rightarrow> Metric \<Rightarrow> bool" where
  "latest_of db k r =
     (r \<in> set (metrics db) \<and> metric_zipcode_id r = k
      \<and> list_all (\<lambda>r'. metric_zipcode_id r' = k \<longrightarrow> metric_timestamp r' \<le> metric_timestamp r)
           (metrics db))"

subsection \<open>Pm25 (airq/lib/readings.py)\<close>

text \<open>
  Modelled from the spec: the enumeration \<open>Pm25\<close> and \<open>Pm25.from_measurement\<close>, which
  are in \<open>airq/lib/readings.py\<close> and not among the sources. The spec gives an ordered
  enumeration of six categories and a classification by fixed ascending breakpoints, the
  top category taking every value from its lower breakpoint on. The spec does not give
  the breakpoints: they are the parameter \<open>bp\<close>, the lower breakpoint of each category
  but the first.
\<close>

datatype Pm25 = Good | Moderate | Unhealthy_for_Sensitive | Unhealthy | Very_Unhealthy
  | Hazardous

fun Pm25_rank :: "Pm25 \<Rightarrow> nat" where
  "Pm25_rank Good = 0"
| "Pm25_rank Moderate = 1"
| "Pm25_rank Unhealthy_for_Sensitive = 2"
| "Pm25_rank Unhealthy = 3"
| "Pm25_rank Very_Unhealthy = 4"
| "Pm25_rank Hazardous = 5"

lemma Pm25_rank_inj: "Pm25_rank a = Pm25_rank b \<Longrightarrow> a = b"
  by (cases a; cases b) simp_all

instantiation Pm25 :: linorder
begin

definition less_eq_Pm25 :: "Pm25 \<Rightarrow> Pm25 \<Rightarrow> bool" where
  "less_eq_Pm25 a b = (Pm25_rank a \<le> Pm25_rank b)"

definition less_Pm25 :: "Pm25 \<Rightarrow> Pm25 \<Rightarrow> bool" where
  "less_Pm25 a b = (Pm25_rank a < Pm25_rank b)"

instance
  by standard (auto simp: less_eq_Pm25_def less_Pm25_def dest: Pm25_rank_inj)

end

record Pm25_breakpoints =
  moderate_from :: real
  sensitive_from :: real
  unhealthy_from :: real
  very_unhealthy_from :: real
  hazardous_from :: real

definition ascending :: "Pm25_breakpoints \<Rightarrow> bool" where
  "ascending bp =
     (moderate_from bp < sensitive_from bp \<and> sensitive_from bp < unhealthy_from bp
      \<and> unhealthy_from bp < very_unhealthy_from bp
      \<and> very_unhealthy_from bp < hazardous_from bp)"

definition from_measurement :: "Pm25_breakpoints \<Rightarrow> real \<Rightarrow> Pm25" where
  "from_measurement bp v =
     (if v < moderate_from bp then Good
      else if v < sensitive_from bp then Moderate
      else if v < unhealthy_from bp then Unhealthy_for_Sensitive
      else if v < very_unhealthy_from bp then Unhealthy
      else if v < hazardous_from bp then Very_Unhealthy
      else Hazardous)"

section \<open>Concrete inputs\<close>

text \<open>
  A stand-in for the great-circle distance on concrete inputs: 100 km per degree of
  city-block distance.
\<close>

definition flat_distance :: haversine where
  "flat_distance lon1 lat1 lon2 lat2 = 100 * (\<bar>lon1 - lon2\<bar> + \<bar>lat1 - lat2\<bar>)"

definition example_target :: Zipcode where
  "example_target = \<lparr>zip_id = 1, zip_zipcode = ''97204'', zip_city_id = 1,
     zip_latitude = 0, zip_longitude = 0, zip_geohash = ''c20''\<rparr>"

text \<open>
  Four zip codes: the target, one 100 km away under the prefix \<open>c2\<close>, one 200 km away
  under \<open>c2\<close>, one 50 km away under \<open>c\<close>. The city of the last one has no row.
\<close>

definition example_db :: database where
  "example_db = \<lparr>zipcodes =
     [example_target,
      \<lparr>zip_id = 2, zip_zipcode = ''97205'', zip_city_id = 1,
        zip_latitude = 0, zip_longitude = 1, zip_geohash = ''c21''\<rparr>,
      \<lparr>zip_id = 3, zip_zipcode = ''97038'', zip_city_id = 2,
        zip_latitude = 0, zip_longitude = 2, zip_geohash = ''c2z''\<rparr>,
      \<lparr>zip_id = 4, zip_zipcode = ''98660'', zip_city_id = 3,
        zip_latitude = 1 / 2, zip_longitude = 0, zip_geohash = ''c9x''\<rparr>],
     cities = [\<lparr>c_id = 1, c_name = ''Portland''\<rparr>, \<lparr>c_id = 2, c_name = ''Molalla''\<rparr>],
     metrics =
       [\<lparr>metric_zipcode_id = 1, metric_timestamp = 10, metric_value = 60,
          metric_num_sensors = 3\<rparr>,
        \<lparr>metric_zipcode_id = 1, metric_timestamp = 20, metric_value = 40,
          metric_num_sensors = 5\<rparr>,
        \<lparr>metric_zipcode_id = 4, metric_timestamp = 20, metric_value = 5,
          metric_num_sensors = 1\<rparr>]\<rparr>"

text \<open>Breakpoints, display strings and metrics for concrete runs of the ranker.\<close>

definition example_breakpoints :: Pm25_breakpoints where
  "example_breakpoints = \<lparr>moderate_from = 12, sensitive_from = 35, unhealthy_from = 55,
     very_unhealthy_from = 150, hazardous_from = 250\<rparr>"

fun Pm25_display :: "Pm25 \<Rightarrow> string" where
  "Pm25_display Good = ''GOOD''"
| "Pm25_display Moderate = ''MODERATE''"
| "Pm25_display Unhealthy_for_Sensitive = ''UNHEALTHY FOR SENSITIVE GROUPS''"
| "Pm25_display Unhealthy = ''UNHEALTHY''"
| "Pm25_display Very_Unhealthy = ''VERY UNHEALTHY''"
| "Pm25_display Hazardous = ''HAZARDOUS''"

definition metric_of :: "string \<Rightarrow> string \<Rightarrow> real \<Rightarrow> real \<Rightarrow> AirQualityMetrics" where
  "metric_of zc cn d v =
     \<lparr>zipcode = zc, city_name = cn, distance = d, average_pm25 = v, num_readings = 1\<rparr>"

text \<open>
  The target (unhealthy air) and five neighbours, four of which are in a better
  category than the target.
\<close>

definition example_metrics :: "AirQualityMetrics list" where
  "example_metrics =
     [metric_of ''97204'' ''Portland'' 0 60,
      metric_of ''97205'' ''Portland'' 10 5,
      metric_of ''97038'' ''Molalla'' 1 20,
      metric_of ''98660'' ''Vancouver'' (1 / 2) 70,
      metric_of ''97003'' ''Beaverton'' 20 3,
      metric_of ''97015'' ''Clackamas'' 2 30]"

lemmas level_defs =
  pm25_level_def from_measurement_def example_breakpoints_def metric_of_def
  less_eq_prod_def less_eq_Pm25_def less_Pm25_def

text \<open>A map of 199 entries that holds the target and none of the other three zip codes.\<close>

definition crowded_map :: zipcodes_map where
  "crowded_map = (1, 0) # map (\<lambda>i. (int i, 1)) [10..<208]"

lemmas example_defs =
  example_db_def example_target_def flat_distance_def geohash_query_def geohash_bit_def
  matches_by_distance_def MAX_NEARBY_ZIPCODE_RADIUS_KM_def MAX_NUM_NEARBY_ZIPCODES_def

section \<open>Properties of the geohash search\<close>

subsection \<open>Association lists\<close>

lemma set_update_subset: "set (AList.update k v al) \<subseteq> insert (k, v) (set al)"
  by (induction al) auto

lemma length_update_le: "length (AList.update k v al) \<le> Suc (length al)"
  by (induction al) auto

subsection \<open>The for loop\<close>

lemma for_matches_radius:
  "\<forall>(k, d) \<in> set zm. k \<noteq> t \<longrightarrow> d \<le> 150 \<Longrightarrow>
   \<forall>(k, d) \<in> set (flow_val (for_matches ms zm)). k \<noteq> t \<longrightarrow> d \<le> 150"
proof (induction ms arbitrary: zm)
  case Nil
  then show ?case by simp
next
  case (Cons m ms)
  obtain i d where m: "m = (i, d)" by (cases m)
  let ?zm' = "if d \<le> MAX_NEARBY_ZIPCODE_RADIUS_KM then AList.update i d zm else zm"
  have "\<forall>(k, d) \<in> set ?zm'. k \<noteq> t \<longrightarrow> d \<le> 150"
    using Cons.prems set_update_subset [of i d zm]
    by (auto simp: MAX_NEARBY_ZIPCODE_RADIUS_KM_def)
  from Cons.IH [OF this] this show ?case
    by (simp add: m Let_def)
qed

lemma for_matches_target:
  "map_of zm t = Some v \<Longrightarrow> t \<notin> fst ` set ms \<Longrightarrow>
   map_of (flow_val (for_matches ms zm)) t = Some v"
proof (induction ms arbitrary: zm)
  case Nil
  then show ?case by simp
next
  case (Cons m ms)
  obtain i d where m: "m = (i, d)" by (cases m)
  let ?zm' = "if d \<le> MAX_NEARBY_ZIPCODE_RADIUS_KM then AList.update i d zm else zm"
  have "map_of ?zm' t = Some v"
    using Cons.prems by (auto simp: m update_conv')
  moreover have "t \<notin> fst ` set ms" using Cons.prems by simp
  ultimately show ?case using Cons.IH [of ?zm']
    by (simp add: m Let_def)
qed

lemma for_matches_distinct:
  "distinct (map fst zm) \<Longrightarrow> distinct (map fst (flow_val (for_matches ms zm)))"
proof (induction ms arbitrary: zm)
  case Nil
  then show ?case by simp
next
  case (Cons m ms)
  obtain i d where m: "m = (i, d)" by (cases m)
  let ?zm' = "if d \<le> MAX_NEARBY_ZIPCODE_RADIUS_KM then AList.update i d zm else zm"
  have "distinct (map fst ?zm')"
    using Cons.prems by (simp add: distinct_update)
  from Cons.IH [OF this] this show ?case
    by (simp add: m Let_def)
qed

lemma for_matches_size:
  "length zm < MAX_NUM_NEARBY_ZIPCODES \<Longrightarrow>
   (case for_matches ms zm of
      Return r \<Rightarrow> length r = MAX_NUM_NEARBY_ZIPCODES
    | Next r \<Rightarrow> length r < MAX_NUM_NEARBY_ZIPCODES)"
proof (induction ms arbitrary: zm)
  case Nil
  then show ?case by simp
next
  case (Cons m ms)
  obtain i d where m: "m = (i, d)" by (cases m)
  let ?zm' = "if d \<le> MAX_NEARBY_ZIPCODE_RADIUS_KM then AList.update i d zm else zm"
  have le: "length ?zm' \<le> MAX_NUM_NEARBY_ZIPCODES"
    using Cons.prems length_update_le [of i d zm] by auto
  show ?case
  proof (cases "length ?zm' \<ge> MAX_NUM_NEARBY_ZIPCODES")
    case True
    with le show ?thesis by (simp add: m Let_def)
  next
    case False
    then have "length ?zm' < MAX_NUM_NEARBY_ZIPCODES" by simp
    from Cons.IH [OF this] False show ?thesis by (simp add: m Let_def)
  qed
qed

text \<open>The query leaves out the identifiers already collected.\<close>

lemma matches_fresh:
  "zm \<noteq> [] \<Longrightarrow> fst ` set (matches_by_distance hav db z gh zm) \<inter> fst ` set zm = {}"
  by (force simp: matches_by_distance_def geohash_query_def Let_def)

subsection \<open>The while loop\<close>

lemma while_gh_Nil: "while_gh hav db z [] zm = (zm, [])"
  by (simp add: while_gh.simps)

lemma while_gh_Return:
  "gh \<noteq> [] \<Longrightarrow> for_matches (matches_by_distance hav db z gh zm) zm = Return zm' \<Longrightarrow>
   while_gh hav db z gh zm = (zm', [gh])"
  by (simp add: while_gh.simps [of hav db z gh zm])

lemma while_gh_Next:
  "gh \<noteq> [] \<Longrightarrow> for_matches (matches_by_distance hav db z gh zm) zm = Next zm' \<Longrightarrow>
   while_gh hav db z gh zm =
     (fst (while_gh hav db z (butlast gh) zm'), gh # snd (while_gh hav db z (butlast gh) zm'))"
  by (simp add: while_gh.simps [of hav db z gh zm] split: prod.splits)

text \<open>
  The loop invariant: the target is in the map at distance 0, every other entry is
  within the radius, the map is below the cap when a round starts, and no key is there
  twice.
\<close>

lemma while_gh_inv:
  "map_of zm (zip_id z) = Some 0 \<Longrightarrow>
   \<forall>(k, d) \<in> set zm. k \<noteq> zip_id z \<longrightarrow> d \<le> 150 \<Longrightarrow>
   length zm < MAX_NUM_NEARBY_ZIPCODES \<Longrightarrow>
   distinct (map fst zm) \<Longrightarrow>
   map_of (fst (while_gh hav db z gh zm)) (zip_id z) = Some 0
   \<and> (\<forall>(k, d) \<in> set (fst (while_gh hav db z gh zm)). k \<noteq> zip_id z \<longrightarrow> d \<le> 150)
   \<and> length (fst (while_gh hav db z gh zm)) \<le> MAX_NUM_NEARBY_ZIPCODES
   \<and> distinct (map fst (fst (while_gh hav db z gh zm)))"
proof (induction hav db z gh zm rule: while_gh.induct)
  case (1 hav db z gh zm)
  show ?case
  proof (cases "gh = []")
    case True
    with "1.prems" show ?thesis by (simp add: while_gh_Nil)
  next
    case False
    let ?ms = "matches_by_distance hav db z gh zm"
    from "1.prems"(1) have ne: "zm \<noteq> []" by auto
    from "1.prems"(1) have "zip_id z \<in> fst ` set zm"
      by (metis domI dom_map_of_conv_image_fst)
    with matches_fresh [OF ne, of hav db z gh] have fresh: "zip_id z \<notin> fst ` set ?ms"
      by blast
    have t: "map_of (flow_val (for_matches ?ms zm)) (zip_id z) = Some 0"
      by (rule for_matches_target [OF "1.prems"(1) fresh])
    have r: "\<forall>(k, d) \<in> set (flow_val (for_matches ?ms zm)). k \<noteq> zip_id z \<longrightarrow> d \<le> 150"
      by (rule for_matches_radius [OF "1.prems"(2)])
    have d: "distinct (map fst (flow_val (for_matches ?ms zm)))"
      by (rule for_matches_distinct [OF "1.prems"(4)])
    note s = for_matches_size [OF "1.prems"(3), of ?ms]
    show ?thesis
    proof (cases "for_matches ?ms zm")
      case (Return zm')
      with t r d s show ?thesis
        by (simp add: while_gh_Return [OF False Return])
    next
      case (Next zm')
      with t r d s have "map_of zm' (zip_id z) = Some 0"
        "\<forall>(k, d) \<in> set zm'. k \<noteq> zip_id z \<longrightarrow> d \<le> 150"
        "length zm' < MAX_NUM_NEARBY_ZIPCODES" "distinct (map fst zm')"
        by simp_all
      from "1.IH" [OF False Next this] show ?thesis
        by (simp add: while_gh_Next [OF False Next])
    qed
  qed
qed

text \<open>
  The rounds of the loop: round \<open>k\<close> (from 0) works on the geohash without its last \<open>k\<close>
  characters, and there are at most as many rounds as the geohash has characters.
\<close>

lemma while_gh_rounds:
  "\<exists>n \<le> length gh.
     snd (while_gh hav db z gh zm) = map (\<lambda>k. take (length gh - k) gh) [0..<n]"
proof (induction hav db z gh zm rule: while_gh.induct)
  case (1 hav db z gh zm)
  show ?case
  proof (cases "gh = []")
    case True
    then show ?thesis by (simp add: while_gh_Nil)
  next
    case False
    let ?ms = "matches_by_distance hav db z gh zm"
    show ?thesis
    proof (cases "for_matches ?ms zm")
      case (Return zm')
      with False have "snd (while_gh hav db z gh zm) = map (\<lambda>k. take (length gh - k) gh) [0..<1]"
        by (simp add: while_gh_Return [OF False Return])
      moreover from False have "1 \<le> length gh" by (cases gh) simp_all
      ultimately show ?thesis by blast
    next
      case (Next zm')
      from "1.IH" [OF False Next] obtain n where n: "n \<le> length (butlast gh)"
        and eq: "snd (while_gh hav db z (butlast gh) zm')
                 = map (\<lambda>k. take (length (butlast gh) - k) (butlast gh)) [0..<n]"
        by blast
      have tk: "take (length (butlast gh) - k) (butlast gh) = take (length gh - Suc k) gh" for k
        by (simp add: butlast_conv_take min_def)
      have "snd (while_gh hav db z gh zm) = gh # snd (while_gh hav db z (butlast gh) zm')"
        by (simp add: while_gh_Next [OF False Next])
      also have "\<dots> = map (\<lambda>k. take (length gh - k) gh) [0..<Suc n]"
        unfolding eq tk by (simp add: upt_conv_Cons map_Suc_upt [symmetric] del: upt_Suc)
      finally have "snd (while_gh hav db z gh zm)
                    = map (\<lambda>k. take (length gh - k) gh) [0..<Suc n]" .
      moreover from n False have "Suc n \<le> length gh" by (cases gh rule: rev_cases) simp_all
      ultimately show ?thesis by blast
    qed
  qed
qed

lemma example_search:
  "while_gh flat_distance example_db example_target ''c20'' [(1, 0)]
     = ([(1, 0), (2, 100), (4, 50)], [''c20'', ''c2'', ''c''])"
  by (simp add: while_gh.simps example_defs)

subsection \<open>Claims on the search\<close>

text \<open>
  C1. In every map returned by \<open>_get_nearby_zipcodes\<close> the target's identifier is
  present with distance 0, every other entry has a distance of at most 150 km, and the
  map has at most 200 entries (its keys are pairwise distinct, as in a \<open>dict\<close>).
\<close>

theorem get_nearby_zipcodes_bounds:
  "map_of (get_nearby_zipcodes hav db z) (zip_id z) = Some 0
   \<and> (\<forall>(k, d) \<in> set (get_nearby_zipcodes hav db z). k \<noteq> zip_id z \<longrightarrow> d \<le> 150)
   \<and> length (get_nearby_zipcodes hav db z) \<le> 200
   \<and> distinct (map fst (get_nearby_zipcodes hav db z))"
  using while_gh_inv [of "[(zip_id z, 0)]" z hav db "zip_geohash z"]
  by (simp add: get_nearby_zipcodes_def MAX_NUM_NEARBY_ZIPCODES_def)

theorem get_nearby_zipcodes_bounds_witness:
  "get_nearby_zipcodes flat_distance example_db example_target = [(1, 0), (2, 100), (4, 50)]
   \<and> map_of (get_nearby_zipcodes flat_distance example_db example_target)
        (zip_id example_target) = Some 0
   \<and> length (get_nearby_zipcodes flat_distance example_db example_target) \<le> 200"
proof -
  have "get_nearby_zipcodes flat_distance example_db example_target
        = [(1, 0), (2, 100), (4, 50)]"
    using example_search by (simp add: get_nearby_zipcodes_def example_target_def)
  with get_nearby_zipcodes_bounds [of flat_distance example_db example_target]
  show ?thesis by simp
qed

text \<open>
  C6. The search loop terminates (\<open>while_gh\<close> is a total function: the working prefix
  gets shorter with every round). Round \<open>k\<close> works on the target's geohash without its
  last \<open>k\<close> characters, so the prefix loses exactly one character per round, and the
  number of rounds is at most the length of the target's geohash.
\<close>

theorem get_nearby_zipcodes_rounds_bounded:
  "length (get_nearby_zipcodes_rounds hav db z) \<le> length (zip_geohash z)
   \<and> get_nearby_zipcodes_rounds hav db z
       = map (\<lambda>k. take (length (zip_geohash z) - k) (zip_geohash z))
             [0..<length (get_nearby_zipcodes_rounds hav db z)]"
proof -
  from while_gh_rounds [of "zip_geohash z" hav db z "[(zip_id z, 0)]"]
  obtain n where "n \<le> length (zip_geohash z)"
    and "get_nearby_zipcodes_rounds hav db z
         = map (\<lambda>k. take (length (zip_geohash z) - k) (zip_geohash z)) [0..<n]"
    by (auto simp: get_nearby_zipcodes_rounds_def)
  then show ?thesis by simp
qed

theorem get_nearby_zipcodes_rounds_bounded_witness:
  "get_nearby_zipcodes_rounds flat_distance example_db example_target = [''c20'', ''c2'', ''c'']
   \<and> length (get_nearby_zipcodes_rounds flat_distance example_db example_target)
       \<le> length (zip_geohash example_target)"
proof -
  have "get_nearby_zipcodes_rounds flat_distance example_db example_target
        = [''c20'', ''c2'', ''c'']"
    using example_search by (simp add: get_nearby_zipcodes_rounds_def example_target_def)
  with get_nearby_zipcodes_rounds_bounded [of flat_distance example_db example_target]
  show ?thesis by simp
qed

text \<open>
  C7. When the target's geohash is the empty string the loop body never runs (there is
  no round) and the search returns the map that holds the target alone, at distance 0.
\<close>

theorem get_nearby_zipcodes_empty_geohash:
  "zip_geohash z = [] \<Longrightarrow>
   get_nearby_zipcodes hav db z = [(zip_id z, 0)] \<and> get_nearby_zipcodes_rounds hav db z = []"
  by (simp add: get_nearby_zipcodes_def get_nearby_zipcodes_rounds_def while_gh_Nil)

theorem get_nearby_zipcodes_empty_geohash_witness:
  "zip_geohash (example_target\<lparr>zip_geohash := []\<rparr>) = []
   \<and> get_nearby_zipcodes flat_distance example_db (example_target\<lparr>zip_geohash := []\<rparr>)
       = [(1, 0)]
   \<and> get_nearby_zipcodes_rounds flat_distance example_db (example_target\<lparr>zip_geohash := []\<rparr>)
       = []"
  using get_nearby_zipcodes_empty_geohash
    [of "example_target\<lparr>zip_geohash := []\<rparr>" flat_distance example_db]
  by (simp add: example_target_def)

subsection \<open>The for loop against the spec\<close>

lemma update_fresh: "k \<notin> fst ` set al \<Longrightarrow> AList.update k v al = al @ [(k, v)]"
  by (induction al) auto

lemma spec_after_0: "spec_after ms zm 0 = zm"
  by (simp add: spec_after_def)

lemma spec_after_Cons: "spec_after (m # ms) zm (Suc j) = spec_after ms (spec_add_match zm m) j"
  by (simp add: spec_after_def)

lemma for_matches_Cons:
  "for_matches (m # ms) zm =
     (if 200 \<le> length (spec_add_match zm m) then Return (spec_add_match zm m)
      else for_matches ms (spec_add_match zm m))"
  by (cases m)
     (simp add: spec_add_match_def MAX_NEARBY_ZIPCODE_RADIUS_KM_def MAX_NUM_NEARBY_ZIPCODES_def)

lemma for_matches_Return:
  "for_matches ms zm = Return r \<Longrightarrow>
   \<exists>j. 1 \<le> j \<and> j \<le> length ms \<and> r = spec_after ms zm j \<and> 200 \<le> length r
       \<and> (\<forall>i. 1 \<le> i \<and> i < j \<longrightarrow> length (spec_after ms zm i) < 200)"
proof (induction ms arbitrary: zm)
  case Nil
  then show ?case by simp
next
  case (Cons m ms)
  let ?zm' = "spec_add_match zm m"
  show ?case
  proof (cases "200 \<le> length ?zm'")
    case True
    with Cons.prems have r: "r = ?zm'" by (simp add: for_matches_Cons)
    have "r = spec_after (m # ms) zm 1"
      unfolding r One_nat_def spec_after_Cons spec_after_0 ..
    with True r show ?thesis by (intro exI [of _ 1]) simp
  next
    case False
    with Cons.prems have "for_matches ms ?zm' = Return r" by (simp add: for_matches_Cons)
    from Cons.IH [OF this] obtain j where j: "1 \<le> j" "j \<le> length ms" "r = spec_after ms ?zm' j"
      "200 \<le> length r" "\<forall>i. 1 \<le> i \<and> i < j \<longrightarrow> length (spec_after ms ?zm' i) < 200"
      by blast
    have "length (spec_after (m # ms) zm i) < 200" if "1 \<le> i" "i < Suc j" for i
    proof (cases i)
      case 0
      with that show ?thesis by simp
    next
      case (Suc i')
      show ?thesis
      proof (cases i')
        case 0
        with Suc False show ?thesis by (simp add: spec_after_Cons spec_after_0)
      next
        case (Suc n)
        with \<open>i = Suc i'\<close> that j(5) show ?thesis by (simp add: spec_after_Cons)
      qed
    qed
    with j show ?thesis
      by (intro exI [of _ "Suc j"]) (simp add: spec_after_Cons)
  qed
qed

lemma for_matches_Next:
  "for_matches ms zm = Next r \<Longrightarrow>
   r = spec_after ms zm (length ms)
   \<and> (\<forall>i. 1 \<le> i \<and> i \<le> length ms \<longrightarrow> length (spec_after ms zm i) < 200)"
proof (induction ms arbitrary: zm)
  case Nil
  then show ?case by (simp add: spec_after_0)
next
  case (Cons m ms)
  let ?zm' = "spec_add_match zm m"
  from Cons.prems have small: "\<not> 200 \<le> length ?zm'" and nxt: "for_matches ms ?zm' = Next r"
    by (simp_all add: for_matches_Cons split: if_splits)
  from Cons.IH [OF nxt] have r: "r = spec_after ms ?zm' (length ms)"
    and ih: "\<forall>i. 1 \<le> i \<and> i \<le> length ms \<longrightarrow> length (spec_after ms ?zm' i) < 200"
    by simp_all
  have "length (spec_after (m # ms) zm i) < 200" if "1 \<le> i" "i \<le> length (m # ms)" for i
  proof (cases i)
    case 0
    with that show ?thesis by simp
  next
    case (Suc i')
    show ?thesis
    proof (cases i')
      case 0
      with Suc small show ?thesis by (simp add: spec_after_Cons spec_after_0)
    next
      case (Suc n)
      with \<open>i = Suc i'\<close> that ih show ?thesis by (simp add: spec_after_Cons)
    qed
  qed
  with r show ?case by (simp add: spec_after_Cons)
qed

lemma spec_after_keys:
  "fst ` set (spec_after ms zm j) = fst ` set zm \<union> {k. \<exists>d. (k, d) \<in> set (take j ms) \<and> d \<le> 150}"
proof (induction ms arbitrary: zm j)
  case Nil
  then show ?case by (simp add: spec_after_def)
next
  case (Cons m ms)
  show ?case
  proof (cases j)
    case 0
    then show ?thesis by (simp add: spec_after_0)
  next
    case (Suc j')
    obtain k d where m: "m = (k, d)" by (cases m)
    show ?thesis
      unfolding Suc spec_after_Cons Cons.IH
      by (auto simp: m spec_add_match_def dom_update)
  qed
qed


lemma crowded_fresh: "2 \<notin> fst ` set crowded_map"
  by (simp add: crowded_map_def image_image image_int_atLeastLessThan)

lemma crowded_matches:
  "matches_by_distance flat_distance example_db example_target ''c2'' crowded_map
     = [(2, 100), (3, 200)]"
  by (simp add: example_defs crowded_map_def image_image image_int_atLeastLessThan)

lemma crowded_round:
  "for_matches [(2, 100), (3, 200)] crowded_map = Return (crowded_map @ [(2, 100)])"
  by (simp add: update_fresh [OF crowded_fresh] MAX_NEARBY_ZIPCODE_RADIUS_KM_def MAX_NUM_NEARBY_ZIPCODES_def)
     (simp add: crowded_map_def)


lemma example_matches:
  "matches_by_distance flat_distance example_db example_target ''c2'' [(1, 0)]
     = [(2, 100), (3, 200)]"
  by (simp add: example_defs)

lemma example_round:
  "for_matches [(2, 100), (3, 200)] [(1, 0)] = Next [(1, 0), (2, 100)]"
  by (simp add: MAX_NEARBY_ZIPCODE_RADIUS_KM_def MAX_NUM_NEARBY_ZIPCODES_def)

text \<open>
  C2. Within one round the matches are run through in ascending order of their
  distance to the target (the list is sorted by distance and holds the rows of the
  query, each once). The loop is the spec's reading cut off at the cap: the map it ends
  with is the candidate set after the first \<open>j\<close> matches, where a considered match is
  in the set exactly when its distance is at most 150 km. After each considered match,
  added or not, the size is compared with 200: the function returns at the first \<open>j\<close>
  where the set has 200 entries, this round being its last and the later matches left
  alone; when no such \<open>j\<close> exists every match is considered and the search goes on with
  the prefix shortened by one character.
\<close>

theorem round_in_distance_order:
  "(let ms = matches_by_distance hav db z gh zm in
      sorted (map snd ms)
      \<and> mset ms = mset (map (\<lambda>r. (fst r, hav (snd (snd r)) (fst (snd r))
                                          (zip_longitude z) (zip_latitude z)))
                             (geohash_query db gh zm))
      \<and> (\<forall>j. fst ` set (spec_after ms zm j)
               = fst ` set zm \<union> {k. \<exists>d. (k, d) \<in> set (take j ms) \<and> d \<le> 150})
      \<and> (case for_matches ms zm of
            Return r \<Rightarrow>
              (\<exists>j. 1 \<le> j \<and> j \<le> length ms \<and> r = spec_after ms zm j \<and> 200 \<le> length r
                   \<and> (\<forall>i. 1 \<le> i \<and> i < j \<longrightarrow> length (spec_after ms zm i) < 200))
              \<and> (gh \<noteq> [] \<longrightarrow> while_gh hav db z gh zm = (r, [gh]))
          | Next r \<Rightarrow>
              r = spec_after ms zm (length ms)
              \<and> (\<forall>i. 1 \<le> i \<and> i \<le> length ms \<longrightarrow> length (spec_after ms zm i) < 200)
              \<and> (gh \<noteq> [] \<longrightarrow> fst (while_gh hav db z gh zm)
                                 = fst (while_gh hav db z (butlast gh) r))))"
proof -
  define ms where "ms = matches_by_distance hav db z gh zm"
  have a: "sorted (map snd ms)"
    by (simp add: ms_def matches_by_distance_def)
  have b: "mset ms = mset (map (\<lambda>r. (fst r, hav (snd (snd r)) (fst (snd r))
                                          (zip_longitude z) (zip_latitude z)))
                             (geohash_query db gh zm))"
    by (simp add: ms_def matches_by_distance_def)
  have c: "\<forall>j. fst ` set (spec_after ms zm j)
               = fst ` set zm \<union> {k. \<exists>d. (k, d) \<in> set (take j ms) \<and> d \<le> 150}"
    by (simp add: spec_after_keys)
  have d: "(case for_matches ms zm of
            Return r \<Rightarrow>
              (\<exists>j. 1 \<le> j \<and> j \<le> length ms \<and> r = spec_after ms zm j \<and> 200 \<le> length r
                   \<and> (\<forall>i. 1 \<le> i \<and> i < j \<longrightarrow> length (spec_after ms zm i) < 200))
              \<and> (gh \<noteq> [] \<longrightarrow> while_gh hav db z gh zm = (r, [gh]))
          | Next r \<Rightarrow>
              r = spec_after ms zm (length ms)
              \<and> (\<forall>i. 1 \<le> i \<and> i \<le> length ms \<longrightarrow> length (spec_after ms zm i) < 200)
              \<and> (gh \<noteq> [] \<longrightarrow> fst (while_gh hav db z gh zm)
                                 = fst (while_gh hav db z (butlast gh) r)))"
  proof (cases "for_matches ms zm")
    case (Return r)
    from for_matches_Return [OF Return] Return show ?thesis
      by (simp add: while_gh_Return [of gh hav db z zm r, unfolded ms_def [symmetric]])
  next
    case (Next r)
    from for_matches_Next [OF Next] Next show ?thesis
      by (simp add: while_gh_Next [of gh hav db z zm r, unfolded ms_def [symmetric]])
  qed
  from a b c d show ?thesis
    unfolding ms_def [symmetric] Let_def by blast
qed

theorem round_in_distance_order_witness:
  "matches_by_distance flat_distance example_db example_target ''c2'' [(1, 0)]
     = [(2, 100), (3, 200)]
   \<and> for_matches [(2, 100), (3, 200)] [(1, 0)] = Next [(1, 0), (2, 100)]
   \<and> spec_after [(2, 100), (3, 200)] [(1, 0)] 2 = [(1, 0), (2, 100)]
   \<and> fst (while_gh flat_distance example_db example_target ''c2'' [(1, 0)])
       = fst (while_gh flat_distance example_db example_target ''c'' [(1, 0), (2, 100)])
   \<and> matches_by_distance flat_distance example_db example_target ''c2'' crowded_map
       = [(2, 100), (3, 200)]
   \<and> length crowded_map = 199
   \<and> for_matches [(2, 100), (3, 200)] crowded_map = Return (crowded_map @ [(2, 100)])
   \<and> while_gh flat_distance example_db example_target ''c2'' crowded_map
       = (crowded_map @ [(2, 100)], [''c2''])"
proof -
  from round_in_distance_order [of flat_distance example_db example_target "''c2''" "[(1, 0)]"]
  have "spec_after [(2, 100), (3, 200)] [(1, 0)] 2 = [(1, 0), (2, 100)]
        \<and> fst (while_gh flat_distance example_db example_target ''c2'' [(1, 0)])
            = fst (while_gh flat_distance example_db example_target ''c'' [(1, 0), (2, 100)])"
    unfolding Let_def example_matches example_round by (simp add: numeral_2_eq_2)
  moreover
  from round_in_distance_order [of flat_distance example_db example_target "''c2''" crowded_map]
  have "while_gh flat_distance example_db example_target ''c2'' crowded_map
        = (crowded_map @ [(2, 100)], [''c2''])"
    unfolding Let_def crowded_matches crowded_round by simp
  moreover have "length crowded_map = 199"
    by (simp add: crowded_map_def)
  ultimately show ?thesis
    using example_matches example_round crowded_matches crowded_round by simp
qed

section \<open>Properties of the metrics aggregator\<close>

subsection \<open>The subquery and the joins\<close>

lemma max_ts_iff:
  "(k, t) \<in> set (max_ts ms) \<longleftrightarrow> k \<in> metric_zipcode_id ` set ms \<and> t = group_max ms k"
  unfolding max_ts_def by auto

lemma group_max_ge:
  assumes "r \<in> set ms" "metric_zipcode_id r = k"
  shows "metric_timestamp r \<le> group_max ms k"
proof -
  define S where "S = set (map metric_timestamp (filter (\<lambda>r. metric_zipcode_id r = k) ms))"
  have "finite S" by (simp add: S_def)
  moreover have "metric_timestamp r \<in> S" using assms by (simp add: S_def)
  ultimately have "metric_timestamp r \<le> Max S" by (rule Max_ge)
  then show ?thesis by (simp add: group_max_def S_def)
qed

lemma group_max_in:
  assumes "r0 \<in> set ms" "metric_zipcode_id r0 = k"
  shows "\<exists>r \<in> set ms. metric_zipcode_id r = k \<and> metric_timestamp r = group_max ms k"
proof -
  define S where "S = set (map metric_timestamp (filter (\<lambda>r. metric_zipcode_id r = k) ms))"
  have fin: "finite S" by (simp add: S_def)
  have "metric_timestamp r0 \<in> S" using assms by (simp add: S_def)
  then have "S \<noteq> {}" by blast
  with fin have "Max S \<in> S" by (rule Max_in)
  then have "group_max ms k \<in> S" by (simp add: group_max_def S_def)
  then have "\<exists>r. r \<in> set ms \<and> metric_zipcode_id r = k \<and> group_max ms k = metric_timestamp r"
    unfolding S_def set_map set_filter image_iff by blast
  then show ?thesis by metis
qed


lemma in_set_if: "x \<in> set (if P then xs else []) \<longleftrightarrow> P \<and> x \<in> set xs"
  by simp

lemma in_set_concat_map: "x \<in> set (concat (map f xs)) \<longleftrightarrow> (\<exists>a \<in> set xs. x \<in> set (f a))"
  by auto

lemma metrics_query_nested:
  "row \<in> set (metrics_query db zm) \<longleftrightarrow>
     (\<exists>r \<in> set (metrics db). \<exists>s \<in> set (max_ts (metrics db)).
        (metric_zipcode_id r = fst s \<and> metric_timestamp r = snd s)
        \<and> (\<exists>z \<in> set (zipcodes db). metric_zipcode_id r = zip_id z
             \<and> (\<exists>c \<in> set (cities db). zip_city_id z = c_id c
                  \<and> zip_id z \<in> set (map fst zm)
                  \<and> row \<in> set [(metric_zipcode_id r, metric_value r, metric_num_sensors r,
                                  zip_zipcode z, c_name c)])))"
  by (simp only: metrics_query_def in_set_concat_map in_set_if)


lemma in_max_ts:
  assumes "r \<in> set ms"
  shows "(\<exists>s \<in> set (max_ts ms). metric_zipcode_id r = fst s \<and> metric_timestamp r = snd s)
         \<longleftrightarrow> metric_timestamp r = group_max ms (metric_zipcode_id r)"
proof
  assume "\<exists>s \<in> set (max_ts ms). metric_zipcode_id r = fst s \<and> metric_timestamp r = snd s"
  then obtain s where s: "s \<in> set (max_ts ms)" "metric_zipcode_id r = fst s"
    "metric_timestamp r = snd s" by blast
  from s(1) have "(fst s, snd s) \<in> set (max_ts ms)" by simp
  then have "snd s = group_max ms (fst s)" unfolding max_ts_iff by blast
  with s(2,3) show "metric_timestamp r = group_max ms (metric_zipcode_id r)" by simp
next
  assume eq: "metric_timestamp r = group_max ms (metric_zipcode_id r)"
  from assms have "(metric_zipcode_id r, group_max ms (metric_zipcode_id r)) \<in> set (max_ts ms)"
    unfolding max_ts_iff by blast
  with eq have "(metric_zipcode_id r, metric_timestamp r) \<in> set (max_ts ms)" by simp
  then show "\<exists>s \<in> set (max_ts ms). metric_zipcode_id r = fst s \<and> metric_timestamp r = snd s"
    by (rule rev_bexI) simp
qed

lemma latest_of_iff:
  "latest_of db k r \<longleftrightarrow>
     r \<in> set (metrics db) \<and> metric_zipcode_id r = k
     \<and> metric_timestamp r = group_max (metrics db) k"
proof
  assume l: "latest_of db k r"
  then have r: "r \<in> set (metrics db)" "metric_zipcode_id r = k"
    and le: "\<forall>r' \<in> set (metrics db). metric_zipcode_id r' = k
                \<longrightarrow> metric_timestamp r' \<le> metric_timestamp r"
    unfolding latest_of_def list_all_iff by blast+
  from group_max_in [OF r] obtain r1 where r1: "r1 \<in> set (metrics db)"
    "metric_zipcode_id r1 = k" "metric_timestamp r1 = group_max (metrics db) k" by blast
  with le have "group_max (metrics db) k \<le> metric_timestamp r" by metis
  moreover from group_max_ge [OF r] have "metric_timestamp r \<le> group_max (metrics db) k" .
  ultimately have "metric_timestamp r = group_max (metrics db) k" by simp
  with r show "r \<in> set (metrics db) \<and> metric_zipcode_id r = k
     \<and> metric_timestamp r = group_max (metrics db) k" by simp
next
  assume a: "r \<in> set (metrics db) \<and> metric_zipcode_id r = k
     \<and> metric_timestamp r = group_max (metrics db) k"
  have "metric_timestamp r' \<le> metric_timestamp r"
    if "r' \<in> set (metrics db)" "metric_zipcode_id r' = k" for r'
    using group_max_ge [OF that] a by simp
  with a show "latest_of db k r"
    unfolding latest_of_def list_all_iff by blast
qed

lemma latest_exists: "has_snapshot db k \<Longrightarrow> \<exists>r. latest_of db k r"
  unfolding has_snapshot_def list_ex_iff latest_of_iff
  using group_max_in [of _ "metrics db" k] by blast

lemma latest_has_snapshot: "latest_of db k r \<Longrightarrow> has_snapshot db k"
  unfolding has_snapshot_def list_ex_iff latest_of_def by blast

lemma metrics_query_iff:
  "row \<in> set (metrics_query db zm) \<longleftrightarrow>
     (\<exists>r z c. latest_of db (fst row) r \<and> z \<in> set (zipcodes db) \<and> c \<in> set (cities db)
        \<and> zip_id z = fst row \<and> c_id c = zip_city_id z \<and> fst row \<in> fst ` set zm
        \<and> row = (fst row, metric_value r, metric_num_sensors r, zip_zipcode z, c_name c))"
  (is "?L \<longleftrightarrow> ?R")
proof
  assume ?L
  then obtain r s z c where r: "r \<in> set (metrics db)" and s: "s \<in> set (max_ts (metrics db))"
    "metric_zipcode_id r = fst s" "metric_timestamp r = snd s"
    and z: "z \<in> set (zipcodes db)" "metric_zipcode_id r = zip_id z"
    and c: "c \<in> set (cities db)" "zip_city_id z = c_id c"
    and k: "zip_id z \<in> set (map fst zm)"
    and row0: "row \<in> set [(metric_zipcode_id r, metric_value r, metric_num_sensors r,
                     zip_zipcode z, c_name c)]"
    unfolding metrics_query_nested by blast
  from row0 have row: "row = (metric_zipcode_id r, metric_value r, metric_num_sensors r,
                     zip_zipcode z, c_name c)" by simp
  from s have "metric_timestamp r = group_max (metrics db) (metric_zipcode_id r)"
    using in_max_ts [OF r] by blast
  with r have "latest_of db (metric_zipcode_id r) r" unfolding latest_of_iff by simp
  with z c k row show ?R by (intro exI [of _ r] exI [of _ z] exI [of _ c]) simp
next
  assume ?R
  then obtain r z c where l: "latest_of db (fst row) r" and z: "z \<in> set (zipcodes db)"
    "zip_id z = fst row" and c: "c \<in> set (cities db)" "c_id c = zip_city_id z"
    and k: "fst row \<in> fst ` set zm"
    and row: "row = (fst row, metric_value r, metric_num_sensors r, zip_zipcode z, c_name c)"
    by blast
  from l have r: "r \<in> set (metrics db)" "metric_zipcode_id r = fst row"
    "metric_timestamp r = group_max (metrics db) (fst row)"
    unfolding latest_of_iff by simp_all
  from r have "\<exists>s \<in> set (max_ts (metrics db)).
      metric_zipcode_id r = fst s \<and> metric_timestamp r = snd s"
    using in_max_ts [OF r(1)] by simp
  then obtain s where s: "s \<in> set (max_ts (metrics db))"
    "metric_zipcode_id r = fst s \<and> metric_timestamp r = snd s" by blast
  have "row \<in> set [(metric_zipcode_id r, metric_value r, metric_num_sensors r,
                     zip_zipcode z, c_name c)]"
    using row r(2) by simp
  with r(1,2) s z c k show ?L
    unfolding metrics_query_nested
    by (intro bexI [of _ r] bexI [of _ s] conjI bexI [of _ z] bexI [of _ c]) simp_all
qed


lemma query_keys:
  "fst ` set (metrics_query db zm) = {k \<in> fst ` set zm. has_snapshot db k \<and> has_names db k}"
proof (rule set_eqI)
  fix k
  show "k \<in> fst ` set (metrics_query db zm)
        \<longleftrightarrow> k \<in> {k \<in> fst ` set zm. has_snapshot db k \<and> has_names db k}"
  proof
    assume "k \<in> fst ` set (metrics_query db zm)"
    then obtain row where row: "row \<in> set (metrics_query db zm)" "fst row = k" by blast
    from row(1) [unfolded metrics_query_iff] row(2)
    obtain r z c where l: "latest_of db k r" and z: "z \<in> set (zipcodes db)" "zip_id z = k"
      and c: "c \<in> set (cities db)" "c_id c = zip_city_id z" and k: "k \<in> fst ` set zm"
      by blast
    from z c have "has_names db k" unfolding has_names_def list_ex_iff by blast
    with latest_has_snapshot [OF l] k
    show "k \<in> {k \<in> fst ` set zm. has_snapshot db k \<and> has_names db k}" by simp
  next
    assume "k \<in> {k \<in> fst ` set zm. has_snapshot db k \<and> has_names db k}"
    then have k: "k \<in> fst ` set zm" and s: "has_snapshot db k" and n: "has_names db k"
      by simp_all
    from latest_exists [OF s] obtain r where l: "latest_of db k r" ..
    from n obtain z c where z: "z \<in> set (zipcodes db)" "zip_id z = k"
      and c: "c \<in> set (cities db)" "c_id c = zip_city_id z"
      unfolding has_names_def list_ex_iff by blast
    define row where "row = (k, metric_value r, metric_num_sensors r, zip_zipcode z, c_name c)"
    have f: "fst row = k" by (simp add: row_def)
    have "row \<in> set (metrics_query db zm)"
      unfolding metrics_query_iff f
      using l z c k by (intro exI [of _ r] exI [of _ z] exI [of _ c]) (simp add: row_def)
    with f show "k \<in> fst ` set (metrics_query db zm)" by (metis imageI)
  qed
qed

lemma build_ok:
  "\<forall>row \<in> set rows. fst row \<in> fst ` set zm \<Longrightarrow>
   \<exists>res. build_aqi_metrics rows zm acc = Inr res
     \<and> fst ` set res = fst ` set acc \<union> fst ` set rows
     \<and> (distinct (map fst acc) \<longrightarrow> distinct (map fst res))
     \<and> (\<forall>e \<in> set res. e \<in> set acc
          \<or> (\<exists>row \<in> set rows. fst row = fst e
               \<and> map_of zm (fst e) = Some (distance (snd e))
               \<and> average_pm25 (snd e) = fst (snd row)
               \<and> num_readings (snd e) = fst (snd (snd row))))"
proof (induction rows arbitrary: acc)
  case Nil
  then show ?case by simp
next
  case (Cons row rows)
  obtain k pm25 n zc cn where row: "row = (k, pm25, n, zc, cn)" by (cases row)
  from Cons.prems have "k \<in> fst ` set zm" by (simp add: row)
  then obtain d where d: "map_of zm k = Some d"
    by (metis map_of_eq_None_iff not_Some_eq)
  define a where "a = \<lparr>zipcode = zc, city_name = cn, distance = d, average_pm25 = pm25,
                num_readings = n\<rparr>"
  define acc' where "acc' = AList.update k a acc"
  have step: "build_aqi_metrics (row # rows) zm acc = build_aqi_metrics rows zm acc'"
    by (simp add: row d a_def acc'_def)
  from Cons.prems have "\<forall>row \<in> set rows. fst row \<in> fst ` set zm" by simp
  from Cons.IH [OF this, of acc'] obtain res where res:
    "build_aqi_metrics rows zm acc' = Inr res"
    "fst ` set res = fst ` set acc' \<union> fst ` set rows"
    "distinct (map fst acc') \<longrightarrow> distinct (map fst res)"
    "\<forall>e \<in> set res. e \<in> set acc'
          \<or> (\<exists>row \<in> set rows. fst row = fst e
               \<and> map_of zm (fst e) = Some (distance (snd e))
               \<and> average_pm25 (snd e) = fst (snd row)
               \<and> num_readings (snd e) = fst (snd (snd row)))"
    by blast
  have keys: "fst ` set acc' = insert k (fst ` set acc)"
    by (simp add: acc'_def dom_update)
  have sub: "set acc' \<subseteq> insert (k, a) (set acc)"
    unfolding acc'_def by (rule set_update_subset)
  have 1: "fst ` set res = fst ` set acc \<union> fst ` set (row # rows)"
    unfolding res(2) keys by (auto simp: row)
  have 2: "distinct (map fst acc) \<longrightarrow> distinct (map fst res)"
    using res(3) by (simp add: acc'_def distinct_update)
  have 3: "e \<in> set acc
          \<or> (\<exists>row' \<in> set (row # rows). fst row' = fst e
               \<and> map_of zm (fst e) = Some (distance (snd e))
               \<and> average_pm25 (snd e) = fst (snd row')
               \<and> num_readings (snd e) = fst (snd (snd row')))" if e: "e \<in> set res" for e
  proof -
    from res(4) e consider "e \<in> set acc'"
      | "\<exists>row \<in> set rows. fst row = fst e
               \<and> map_of zm (fst e) = Some (distance (snd e))
               \<and> average_pm25 (snd e) = fst (snd row)
               \<and> num_readings (snd e) = fst (snd (snd row))" by blast
    then show ?thesis
    proof cases
      case 1
      with sub have "e = (k, a) \<or> e \<in> set acc" by blast
      then show ?thesis
      proof
        assume "e = (k, a)"
        then have "fst row = fst e \<and> map_of zm (fst e) = Some (distance (snd e))
               \<and> average_pm25 (snd e) = fst (snd row)
               \<and> num_readings (snd e) = fst (snd (snd row))"
          by (simp add: row d a_def)
        then show ?thesis by simp
      next
        assume "e \<in> set acc"
        then show ?thesis ..
      qed
    next
      case 2
      then show ?thesis by auto
    qed
  qed
  from 3 have 4: "\<forall>e \<in> set res. e \<in> set acc
          \<or> (\<exists>row' \<in> set (row # rows). fst row' = fst e
               \<and> map_of zm (fst e) = Some (distance (snd e))
               \<and> average_pm25 (snd e) = fst (snd row')
               \<and> num_readings (snd e) = fst (snd (snd row')))" ..
  have 0: "build_aqi_metrics (row # rows) zm acc = Inr res"
    unfolding step by (rule res(1))
  show ?case
    by (rule exI [of _ res]) (intro conjI 0 1 2 4)
qed


lemma example_metrics_query:
  "metrics_query example_db [(1, 0), (2, 100), (4, 50)] = [(1, 40, 5, ''97204'', ''Portland'')]"
  by (simp add: metrics_query_def max_ts_def group_max_def example_db_def example_target_def)

lemma example_aggregate:
  "get_air_quality_metrics_for_zipcodes example_db [(1, 0), (2, 100), (4, 50)]
     = Inr [(1, \<lparr>zipcode = ''97204'', city_name = ''Portland'', distance = 0,
                 average_pm25 = 40, num_readings = 5\<rparr>)]"
  by (simp add: get_air_quality_metrics_for_zipcodes_def example_metrics_query)

subsection \<open>Claim on the aggregator\<close>

text \<open>
  C5, as stated, fails: the keys of the result are not all input identifiers with a
  reading snapshot. Zip code 4 of the example has a snapshot, but its city has no row,
  so the inner join with the cities drops it and the result for the map that holds it
  alone is empty.
\<close>

theorem metrics_for_zipcodes_counterexample:
  "get_air_quality_metrics_for_zipcodes example_db [(4, 50)] = Inr []
   \<and> has_snapshot example_db 4"
  by (simp add: get_air_quality_metrics_for_zipcodes_def metrics_query_def max_ts_def group_max_def
        has_snapshot_def example_db_def example_target_def)


text \<open>
  C5, amended. For every input map the aggregator returns a mapping and raises nothing.
  Its keys are exactly the input identifiers that have at least one reading snapshot
  and whose zip-code row and city row exist (the query joins the metrics with the zip
  codes and the cities by inner joins); identifiers without a snapshot are left out.
  Every returned metric carries the distance that the input map gives for its
  identifier, and its value and reading count are those of a snapshot with the greatest
  timestamp of that zip code.
\<close>

theorem metrics_for_zipcodes_keys:
  "\<exists>res. get_air_quality_metrics_for_zipcodes db zm = Inr res
     \<and> distinct (map fst res)
     \<and> fst ` set res = {k \<in> fst ` set zm. has_snapshot db k \<and> has_names db k}
     \<and> (\<forall>e \<in> set res. map_of zm (fst e) = Some (distance (snd e))
          \<and> (\<exists>r. latest_of db (fst e) r \<and> average_pm25 (snd e) = metric_value r
                 \<and> num_readings (snd e) = metric_num_sensors r))"
proof -
  define rows where "rows = metrics_query db zm"
  have in_zm: "\<forall>row \<in> set rows. fst row \<in> fst ` set zm"
    using metrics_query_iff [of _ db zm] unfolding rows_def by blast
  from build_ok [OF in_zm, of "[]"] obtain res where res:
    "build_aqi_metrics rows zm [] = Inr res"
    "fst ` set res = fst ` set rows"
    "distinct (map fst res)"
    "\<forall>e \<in> set res. \<exists>row \<in> set rows. fst row = fst e
               \<and> map_of zm (fst e) = Some (distance (snd e))
               \<and> average_pm25 (snd e) = fst (snd row)
               \<and> num_readings (snd e) = fst (snd (snd row))"
    by auto
  have 0: "get_air_quality_metrics_for_zipcodes db zm = Inr res"
    using res(1) by (simp add: get_air_quality_metrics_for_zipcodes_def rows_def)
  have 2: "fst ` set res = {k \<in> fst ` set zm. has_snapshot db k \<and> has_names db k}"
    unfolding res(2) rows_def by (rule query_keys)
  have 3: "\<forall>e \<in> set res. map_of zm (fst e) = Some (distance (snd e))
          \<and> (\<exists>r. latest_of db (fst e) r \<and> average_pm25 (snd e) = metric_value r
                 \<and> num_readings (snd e) = metric_num_sensors r)"
  proof
    fix e assume "e \<in> set res"
    with res(4) obtain row where row: "row \<in> set rows" "fst row = fst e"
      "map_of zm (fst e) = Some (distance (snd e))"
      "average_pm25 (snd e) = fst (snd row)" "num_readings (snd e) = fst (snd (snd row))"
      by blast
    from row(1) [unfolded rows_def metrics_query_iff]
    have "\<exists>r. latest_of db (fst row) r \<and> fst (snd row) = metric_value r
              \<and> fst (snd (snd row)) = metric_num_sensors r"
    proof (elim exE conjE)
      fix r :: Metric and z :: Zipcode and c :: City
      assume l: "latest_of db (fst row) r"
        and eq: "row = (fst row, metric_value r, metric_num_sensors r, zip_zipcode z, c_name c)"
      from eq have "snd row = (metric_value r, metric_num_sensors r, zip_zipcode z, c_name c)"
        by (metis snd_conv)
      then have "fst (snd row) = metric_value r" "fst (snd (snd row)) = metric_num_sensors r"
        by simp_all
      with l show ?thesis by blast
    qed
    then obtain r where l: "latest_of db (fst row) r" "fst (snd row) = metric_value r"
      "fst (snd (snd row)) = metric_num_sensors r" by blast
    with l row show "map_of zm (fst e) = Some (distance (snd e))
          \<and> (\<exists>r. latest_of db (fst e) r \<and> average_pm25 (snd e) = metric_value r
                 \<and> num_readings (snd e) = metric_num_sensors r)"
      by auto
  qed
  show ?thesis
    by (rule exI [of _ res]) (intro conjI 0 res(3) 2 3)
qed

theorem metrics_for_zipcodes_keys_witness:
  "get_air_quality_metrics_for_zipcodes example_db [(1, 0), (2, 100), (4, 50)]
     = Inr [(1, \<lparr>zipcode = ''97204'', city_name = ''Portland'', distance = 0,
                 average_pm25 = 40, num_readings = 5\<rparr>)]
   \<and> {k \<in> fst ` set [(1 :: int, 0 :: real), (2, 100), (4, 50)].
        has_snapshot example_db k \<and> has_names example_db k} = {1}
   \<and> has_snapshot example_db 1 \<and> has_names example_db 1
   \<and> \<not> has_snapshot example_db 2
   \<and> has_snapshot example_db 4 \<and> \<not> has_names example_db 4"
proof -
  from metrics_for_zipcodes_keys [of example_db "[(1, 0), (2, 100), (4, 50)]"]
  have "{k \<in> fst ` set [(1 :: int, 0 :: real), (2, 100), (4, 50)].
          has_snapshot example_db k \<and> has_names example_db k} = {1}"
    unfolding example_aggregate by auto
  moreover have "has_snapshot example_db 1 \<and> has_names example_db 1
      \<and> \<not> has_snapshot example_db 2
      \<and> has_snapshot example_db 4 \<and> \<not> has_names example_db 4"
    by (simp add: has_snapshot_def has_names_def example_db_def example_target_def)
  ultimately show ?thesis using example_aggregate by simp
qed

section \<open>Properties of the recommendation ranker\<close>

lemma sort_key_Nil_iff: "(sort_key f xs = []) = (xs = [])"
  using length_sort [of f xs] by (metis length_0_conv)

lemma lower_sorted:
  "sorted (map (\<lambda>m. (pm25_level fm m, distance m)) (lower_pm25_metrics fm ms zc cutoff))"
  unfolding lower_pm25_metrics_def take_map [symmetric]
  by (rule sorted_wrt_take) (rule sorted_sort_key)

lemma lower_set:
  "set (lower_pm25_metrics fm ms zc cutoff)
     \<subseteq> {m \<in> set ms. zipcode m \<noteq> zc \<and> pm25_level fm m < cutoff}"
  unfolding lower_pm25_metrics_def using set_take_subset by fastforce

text \<open>
  The returned message is the heading followed by one line per selected entry, in the
  order of the selection, and nothing when the selection is empty.
\<close>

lemma get_recommendations_lines:
  "get_recommendations fm display ms zc cutoff =
     (if lower_pm25_metrics fm ms zc cutoff = [] then []
      else ''Try these other places near you for better air quality:''
           # map (\<lambda>m. '' - '' @ city_name m @ '' '' @ zipcode m @ '': ''
                       @ display (pm25_level fm m))
                 (lower_pm25_metrics fm ms zc cutoff))"
  by (simp add: get_recommendations_def Let_def)

lemma example_selection:
  "lower_pm25_metrics (from_measurement example_breakpoints) example_metrics ''97204'' Unhealthy
     = [metric_of ''97205'' ''Portland'' 10 5, metric_of ''97003'' ''Beaverton'' 20 3,
        metric_of ''97038'' ''Molalla'' 1 20]"
  by (simp add: lower_pm25_metrics_def example_metrics_def level_defs)

lemma example_message:
  "get_recommendations (from_measurement example_breakpoints) Pm25_display example_metrics
     ''97204'' Unhealthy
     = [''Try these other places near you for better air quality:'',
        '' - Portland 97205: GOOD'', '' - Beaverton 97003: GOOD'',
        '' - Molalla 97038: MODERATE'']"
  unfolding get_recommendations_lines example_selection by (simp add: level_defs)

text \<open>
  C3. The entries selected by \<open>_get_recommendations\<close> are in ascending order of the pair
  (category, distance): of two selected entries the earlier one is in a strictly lower
  category, or in the same category and at most as far away. So a better category
  comes first whatever the distances. The list the function returns is the heading
  followed by one line per selected entry in exactly this order (and is empty when
  nothing is selected), for every input. In particular, with the cutoff at a category
  \<open>unhealthy\<close> and neighbours in a category \<open>good\<close> at distance 10, in \<open>moderate\<close> at
  distance 1 and in \<open>unhealthy\<close> at distance 0.5 (\<open>good < moderate < unhealthy\<close>), the
  selection is the first two in this order, and the returned message lists them so, in
  whichever of the two orders the three come in.
\<close>

theorem lower_pm25_metrics_order:
  "(\<forall>i j. i < j \<and> j < length (lower_pm25_metrics fm ms zc cutoff) \<longrightarrow>
      pm25_level fm (lower_pm25_metrics fm ms zc cutoff ! i)
        < pm25_level fm (lower_pm25_metrics fm ms zc cutoff ! j)
      \<or> pm25_level fm (lower_pm25_metrics fm ms zc cutoff ! i)
          = pm25_level fm (lower_pm25_metrics fm ms zc cutoff ! j)
        \<and> distance (lower_pm25_metrics fm ms zc cutoff ! i)
          \<le> distance (lower_pm25_metrics fm ms zc cutoff ! j))
   \<and> get_recommendations fm display ms zc cutoff =
       (if lower_pm25_metrics fm ms zc cutoff = [] then []
        else ''Try these other places near you for better air quality:''
             # map (\<lambda>m. '' - '' @ city_name m @ '' '' @ zipcode m @ '': ''
                         @ display (pm25_level fm m))
                   (lower_pm25_metrics fm ms zc cutoff))
   \<and> (good < moderate \<and> moderate < unhealthy
       \<and> pm25_level fm g = good \<and> distance g = 10 \<and> zipcode g \<noteq> zc
       \<and> pm25_level fm m = moderate \<and> distance m = 1 \<and> zipcode m \<noteq> zc
       \<and> pm25_level fm u = unhealthy \<and> distance u = 1 / 2 \<longrightarrow>
       lower_pm25_metrics fm [g, m, u] zc unhealthy = [g, m]
       \<and> lower_pm25_metrics fm [u, m, g] zc unhealthy = [g, m]
       \<and> get_recommendations fm display [g, m, u] zc unhealthy
           = [''Try these other places near you for better air quality:'',
              '' - '' @ city_name g @ '' '' @ zipcode g @ '': '' @ display good,
              '' - '' @ city_name m @ '' '' @ zipcode m @ '': '' @ display moderate]
       \<and> get_recommendations fm display [u, m, g] zc unhealthy
           = [''Try these other places near you for better air quality:'',
              '' - '' @ city_name g @ '' '' @ zipcode g @ '': '' @ display good,
              '' - '' @ city_name m @ '' '' @ zipcode m @ '': '' @ display moderate])"
proof -
  let ?sel = "lower_pm25_metrics fm ms zc cutoff"
  let ?key = "\<lambda>m. (pm25_level fm m, distance m)"
  have "pm25_level fm (?sel ! i) < pm25_level fm (?sel ! j)
        \<or> pm25_level fm (?sel ! i) = pm25_level fm (?sel ! j)
          \<and> distance (?sel ! i) \<le> distance (?sel ! j)"
    if "i < j" "j < length ?sel" for i j
  proof -
    from that have "map ?key ?sel ! i \<le> map ?key ?sel ! j"
      by (intro sorted_nth_mono [OF lower_sorted]) simp_all
    with that show ?thesis by (auto simp: less_eq_prod_def)
  qed
  moreover note get_recommendations_lines [of fm display ms zc cutoff]
  moreover have "lower_pm25_metrics fm [g, m, u] zc unhealthy = [g, m]
       \<and> lower_pm25_metrics fm [u, m, g] zc unhealthy = [g, m]
       \<and> get_recommendations fm display [g, m, u] zc unhealthy
           = [''Try these other places near you for better air quality:'',
              '' - '' @ city_name g @ '' '' @ zipcode g @ '': '' @ display good,
              '' - '' @ city_name m @ '' '' @ zipcode m @ '': '' @ display moderate]
       \<and> get_recommendations fm display [u, m, g] zc unhealthy
           = [''Try these other places near you for better air quality:'',
              '' - '' @ city_name g @ '' '' @ zipcode g @ '': '' @ display good,
              '' - '' @ city_name m @ '' '' @ zipcode m @ '': '' @ display moderate]"
    if "good < moderate" "moderate < unhealthy"
       "pm25_level fm g = good" "distance g = 10" "zipcode g \<noteq> zc"
       "pm25_level fm m = moderate" "distance m = 1" "zipcode m \<noteq> zc"
       "pm25_level fm u = unhealthy" "distance u = 1 / 2"
  proof -
    from that have sel: "lower_pm25_metrics fm [g, m, u] zc unhealthy = [g, m]"
      "lower_pm25_metrics fm [u, m, g] zc unhealthy = [g, m]"
      by (auto simp: lower_pm25_metrics_def less_eq_prod_def)
    show ?thesis
      unfolding get_recommendations_lines sel using that by simp
  qed
  ultimately show ?thesis by blast
qed

theorem lower_pm25_metrics_order_witness:
  "Good < Moderate \<and> Moderate < Unhealthy
   \<and> pm25_level (from_measurement example_breakpoints) (metric_of ''97205'' ''Portland'' 10 5)
       = Good
   \<and> pm25_level (from_measurement example_breakpoints) (metric_of ''97038'' ''Molalla'' 1 20)
       = Moderate
   \<and> pm25_level (from_measurement example_breakpoints)
        (metric_of ''98660'' ''Vancouver'' (1 / 2) 70) = Unhealthy
   \<and> lower_pm25_metrics (from_measurement example_breakpoints)
        [metric_of ''97205'' ''Portland'' 10 5, metric_of ''97038'' ''Molalla'' 1 20,
         metric_of ''98660'' ''Vancouver'' (1 / 2) 70] ''97204'' Unhealthy
       = [metric_of ''97205'' ''Portland'' 10 5, metric_of ''97038'' ''Molalla'' 1 20]
   \<and> get_recommendations (from_measurement example_breakpoints) Pm25_display
        [metric_of ''97205'' ''Portland'' 10 5, metric_of ''97038'' ''Molalla'' 1 20,
         metric_of ''98660'' ''Vancouver'' (1 / 2) 70] ''97204'' Unhealthy
       = [''Try these other places near you for better air quality:'',
          '' - Portland 97205: GOOD'', '' - Molalla 97038: MODERATE'']
   \<and> get_recommendations (from_measurement example_breakpoints) Pm25_display
        [metric_of ''98660'' ''Vancouver'' (1 / 2) 70, metric_of ''97038'' ''Molalla'' 1 20,
         metric_of ''97205'' ''Portland'' 10 5] ''97204'' Unhealthy
       = [''Try these other places near you for better air quality:'',
          '' - Portland 97205: GOOD'', '' - Molalla 97038: MODERATE'']
   \<and> pm25_level (from_measurement example_breakpoints)
        (lower_pm25_metrics (from_measurement example_breakpoints) example_metrics
           ''97204'' Unhealthy ! 1)
       < pm25_level (from_measurement example_breakpoints)
           (lower_pm25_metrics (from_measurement example_breakpoints) example_metrics
              ''97204'' Unhealthy ! 2)
   \<and> get_recommendations (from_measurement example_breakpoints) Pm25_display example_metrics
        ''97204'' Unhealthy
       = [''Try these other places near you for better air quality:'',
          '' - Portland 97205: GOOD'', '' - Beaverton 97003: GOOD'',
          '' - Molalla 97038: MODERATE'']"
proof -
  have lv: "Good < Moderate" "Moderate < Unhealthy"
    "pm25_level (from_measurement example_breakpoints) (metric_of ''97205'' ''Portland'' 10 5)
       = Good"
    "pm25_level (from_measurement example_breakpoints) (metric_of ''97038'' ''Molalla'' 1 20)
       = Moderate"
    "pm25_level (from_measurement example_breakpoints)
       (metric_of ''98660'' ''Vancouver'' (1 / 2) 70) = Unhealthy"
    by (simp_all add: level_defs)
  have ds: "distance (metric_of ''97205'' ''Portland'' 10 5) = 10"
    "distance (metric_of ''97038'' ''Molalla'' 1 20) = 1"
    "distance (metric_of ''98660'' ''Vancouver'' (1 / 2) 70) = 1 / 2"
    "zipcode (metric_of ''97205'' ''Portland'' 10 5) \<noteq> ''97204''"
    "zipcode (metric_of ''97038'' ''Molalla'' 1 20) \<noteq> ''97204''"
    by (simp_all add: metric_of_def)
  have hyp: "Good < Moderate \<and> Moderate < Unhealthy
       \<and> pm25_level (from_measurement example_breakpoints)
            (metric_of ''97205'' ''Portland'' 10 5) = Good
       \<and> distance (metric_of ''97205'' ''Portland'' 10 5) = 10
       \<and> zipcode (metric_of ''97205'' ''Portland'' 10 5) \<noteq> ''97204''
       \<and> pm25_level (from_measurement example_breakpoints)
            (metric_of ''97038'' ''Molalla'' 1 20) = Moderate
       \<and> distance (metric_of ''97038'' ''Molalla'' 1 20) = 1
       \<and> zipcode (metric_of ''97038'' ''Molalla'' 1 20) \<noteq> ''97204''
       \<and> pm25_level (from_measurement example_breakpoints)
            (metric_of ''98660'' ''Vancouver'' (1 / 2) 70) = Unhealthy
       \<and> distance (metric_of ''98660'' ''Vancouver'' (1 / 2) 70) = 1 / 2"
    using lv ds by simp
  note t = lower_pm25_metrics_order
    [of "from_measurement example_breakpoints" example_metrics "''97204''" Unhealthy
        Pm25_display Good Moderate Unhealthy "metric_of ''97205'' ''Portland'' 10 5"
        "metric_of ''97038'' ''Molalla'' 1 20" "metric_of ''98660'' ''Vancouver'' (1 / 2) 70"]
  from t have imp: "Good < Moderate \<and> Moderate < Unhealthy
       \<and> pm25_level (from_measurement example_breakpoints)
            (metric_of ''97205'' ''Portland'' 10 5) = Good
       \<and> distance (metric_of ''97205'' ''Portland'' 10 5) = 10
       \<and> zipcode (metric_of ''97205'' ''Portland'' 10 5) \<noteq> ''97204''
       \<and> pm25_level (from_measurement example_breakpoints)
            (metric_of ''97038'' ''Molalla'' 1 20) = Moderate
       \<and> distance (metric_of ''97038'' ''Molalla'' 1 20) = 1
       \<and> zipcode (metric_of ''97038'' ''Molalla'' 1 20) \<noteq> ''97204''
       \<and> pm25_level (from_measurement example_breakpoints)
            (metric_of ''98660'' ''Vancouver'' (1 / 2) 70) = Unhealthy
       \<and> distance (metric_of ''98660'' ''Vancouver'' (1 / 2) 70) = 1 / 2 \<longrightarrow>
       lower_pm25_metrics (from_measurement example_breakpoints)
         [metric_of ''97205'' ''Portland'' 10 5, metric_of ''97038'' ''Molalla'' 1 20,
          metric_of ''98660'' ''Vancouver'' (1 / 2) 70] ''97204'' Unhealthy
         = [metric_of ''97205'' ''Portland'' 10 5, metric_of ''97038'' ''Molalla'' 1 20]
       \<and> lower_pm25_metrics (from_measurement example_breakpoints)
         [metric_of ''98660'' ''Vancouver'' (1 / 2) 70, metric_of ''97038'' ''Molalla'' 1 20,
          metric_of ''97205'' ''Portland'' 10 5] ''97204'' Unhealthy
         = [metric_of ''97205'' ''Portland'' 10 5, metric_of ''97038'' ''Molalla'' 1 20]
       \<and> get_recommendations (from_measurement example_breakpoints) Pm25_display
         [metric_of ''97205'' ''Portland'' 10 5, metric_of ''97038'' ''Molalla'' 1 20,
          metric_of ''98660'' ''Vancouver'' (1 / 2) 70] ''97204'' Unhealthy
         = [''Try these other places near you for better air quality:'',
            '' - '' @ city_name (metric_of ''97205'' ''Portland'' 10 5) @ '' ''
              @ zipcode (metric_of ''97205'' ''Portland'' 10 5) @ '': '' @ Pm25_display Good,
            '' - '' @ city_name (metric_of ''97038'' ''Molalla'' 1 20) @ '' ''
              @ zipcode (metric_of ''97038'' ''Molalla'' 1 20) @ '': ''
              @ Pm25_display Moderate]
       \<and> get_recommendations (from_measurement example_breakpoints) Pm25_display
         [metric_of ''98660'' ''Vancouver'' (1 / 2) 70, metric_of ''97038'' ''Molalla'' 1 20,
          metric_of ''97205'' ''Portland'' 10 5] ''97204'' Unhealthy
         = [''Try these other places near you for better air quality:'',
            '' - '' @ city_name (metric_of ''97205'' ''Portland'' 10 5) @ '' ''
              @ zipcode (metric_of ''97205'' ''Portland'' 10 5) @ '': '' @ Pm25_display Good,
            '' - '' @ city_name (metric_of ''97038'' ''Molalla'' 1 20) @ '' ''
              @ zipcode (metric_of ''97038'' ''Molalla'' 1 20) @ '': ''
              @ Pm25_display Moderate]"
    by (elim conjE)
  from imp [rule_format, OF hyp] have ex:
    "lower_pm25_metrics (from_measurement example_breakpoints)
        [metric_of ''97205'' ''Portland'' 10 5, metric_of ''97038'' ''Molalla'' 1 20,
         metric_of ''98660'' ''Vancouver'' (1 / 2) 70] ''97204'' Unhealthy
       = [metric_of ''97205'' ''Portland'' 10 5, metric_of ''97038'' ''Molalla'' 1 20]"
    "get_recommendations (from_measurement example_breakpoints) Pm25_display
        [metric_of ''97205'' ''Portland'' 10 5, metric_of ''97038'' ''Molalla'' 1 20,
         metric_of ''98660'' ''Vancouver'' (1 / 2) 70] ''97204'' Unhealthy
       = [''Try these other places near you for better air quality:'',
          '' - Portland 97205: GOOD'', '' - Molalla 97038: MODERATE'']"
    "get_recommendations (from_measurement example_breakpoints) Pm25_display
        [metric_of ''98660'' ''Vancouver'' (1 / 2) 70, metric_of ''97038'' ''Molalla'' 1 20,
         metric_of ''97205'' ''Portland'' 10 5] ''97204'' Unhealthy
       = [''Try these other places near you for better air quality:'',
          '' - Portland 97205: GOOD'', '' - Molalla 97038: MODERATE'']"
    by (simp_all add: metric_of_def)
  have "pm25_level (from_measurement example_breakpoints)
        (lower_pm25_metrics (from_measurement example_breakpoints) example_metrics
           ''97204'' Unhealthy ! 1)
       < pm25_level (from_measurement example_breakpoints)
           (lower_pm25_metrics (from_measurement example_breakpoints) example_metrics
              ''97204'' Unhealthy ! 2)"
    unfolding example_selection by (simp add: level_defs)
  with lv ex example_message show ?thesis by simp
qed

text \<open>
  C4. For every collection of metrics, target zip-code string and target category,
  \<open>_get_recommendations\<close> selects at most 3 entries; each selected entry is one of the
  input, has a zip-code string other than the target's and is in a category strictly
  lower than the target's. What the function returns is built from this selection and
  nothing else: the heading followed by one line per selected entry, so at most 4
  strings. The function is total: when no entry qualifies the selection is empty and so
  is the returned message, and the message is empty in no other case.
\<close>

theorem lower_pm25_metrics_selection:
  "length (lower_pm25_metrics fm ms zc cutoff) \<le> 3
   \<and> (\<forall>m \<in> set (lower_pm25_metrics fm ms zc cutoff).
        m \<in> set ms \<and> zipcode m \<noteq> zc \<and> pm25_level fm m < cutoff)
   \<and> (lower_pm25_metrics fm ms zc cutoff = [])
       = (\<forall>m \<in> set ms. zipcode m = zc \<or> cutoff \<le> pm25_level fm m)
   \<and> (get_recommendations fm display ms zc cutoff = [])
       = (lower_pm25_metrics fm ms zc cutoff = [])
   \<and> get_recommendations fm display ms zc cutoff =
       (if lower_pm25_metrics fm ms zc cutoff = [] then []
        else ''Try these other places near you for better air quality:''
             # map (\<lambda>m. '' - '' @ city_name m @ '' '' @ zipcode m @ '': ''
                         @ display (pm25_level fm m))
                   (lower_pm25_metrics fm ms zc cutoff))
   \<and> length (get_recommendations fm display ms zc cutoff) \<le> 4"
proof -
  have len: "length (lower_pm25_metrics fm ms zc cutoff) \<le> 3"
    by (simp add: lower_pm25_metrics_def)
  moreover have "\<forall>m \<in> set (lower_pm25_metrics fm ms zc cutoff).
        m \<in> set ms \<and> zipcode m \<noteq> zc \<and> pm25_level fm m < cutoff"
    using lower_set [of fm ms zc cutoff] by blast
  moreover have "(lower_pm25_metrics fm ms zc cutoff = [])
       = (\<forall>m \<in> set ms. zipcode m = zc \<or> cutoff \<le> pm25_level fm m)"
    by (auto simp: lower_pm25_metrics_def sort_key_Nil_iff filter_empty_conv not_less)
  moreover have "(get_recommendations fm display ms zc cutoff = [])
       = (lower_pm25_metrics fm ms zc cutoff = [])"
    by (simp add: get_recommendations_def Let_def)
  moreover note get_recommendations_lines [of fm display ms zc cutoff]
  moreover have "length (get_recommendations fm display ms zc cutoff) \<le> 4"
    unfolding get_recommendations_lines using len by simp
  ultimately show ?thesis by blast
qed

theorem lower_pm25_metrics_selection_witness:
  "lower_pm25_metrics (from_measurement example_breakpoints) example_metrics ''97204'' Unhealthy
     = [metric_of ''97205'' ''Portland'' 10 5, metric_of ''97003'' ''Beaverton'' 20 3,
        metric_of ''97038'' ''Molalla'' 1 20]
   \<and> length (lower_pm25_metrics (from_measurement example_breakpoints) example_metrics
        ''97204'' Unhealthy) \<le> 3
   \<and> zipcode (metric_of ''97003'' ''Beaverton'' 20 3) \<noteq> ''97204''
   \<and> pm25_level (from_measurement example_breakpoints) (metric_of ''97003'' ''Beaverton'' 20 3)
       < Unhealthy
   \<and> get_recommendations (from_measurement example_breakpoints) Pm25_display example_metrics
        ''97204'' Unhealthy
       = [''Try these other places near you for better air quality:'',
          '' - Portland 97205: GOOD'', '' - Beaverton 97003: GOOD'',
          '' - Molalla 97038: MODERATE'']
   \<and> length (get_recommendations (from_measurement example_breakpoints) Pm25_display
        example_metrics ''97204'' Unhealthy) \<le> 4
   \<and> lower_pm25_metrics (from_measurement example_breakpoints) example_metrics ''97204'' Good
       = []
   \<and> get_recommendations (from_measurement example_breakpoints) Pm25_display example_metrics
        ''97204'' Good = []"
proof -
  note t1 = lower_pm25_metrics_selection
    [of "from_measurement example_breakpoints" example_metrics "''97204''" Unhealthy
        Pm25_display]
  note t2 = lower_pm25_metrics_selection
    [of "from_measurement example_breakpoints" example_metrics "''97204''" Good Pm25_display]
  from t1 have "(\<forall>m \<in> set (lower_pm25_metrics (from_measurement example_breakpoints)
                   example_metrics ''97204'' Unhealthy).
        m \<in> set example_metrics \<and> zipcode m \<noteq> ''97204''
        \<and> pm25_level (from_measurement example_breakpoints) m < Unhealthy)"
    and "length (lower_pm25_metrics (from_measurement example_breakpoints) example_metrics
          ''97204'' Unhealthy) \<le> 3"
    and "length (get_recommendations (from_measurement example_breakpoints) Pm25_display
          example_metrics ''97204'' Unhealthy) \<le> 4"
    by blast+
  then have "zipcode (metric_of ''97003'' ''Beaverton'' 20 3) \<noteq> ''97204''
     \<and> pm25_level (from_measurement example_breakpoints)
         (metric_of ''97003'' ''Beaverton'' 20 3) < Unhealthy
     \<and> length (lower_pm25_metrics (from_measurement example_breakpoints) example_metrics
          ''97204'' Unhealthy) \<le> 3
     \<and> length (get_recommendations (from_measurement example_breakpoints) Pm25_display
          example_metrics ''97204'' Unhealthy) \<le> 4"
    unfolding example_selection by simp
  moreover have "\<forall>m \<in> set example_metrics.
      zipcode m = ''97204'' \<or> Good \<le> pm25_level (from_measurement example_breakpoints) m"
    by (simp add: less_eq_Pm25_def)
  with t2 have "lower_pm25_metrics (from_measurement example_breakpoints) example_metrics
        ''97204'' Good = []
     \<and> get_recommendations (from_measurement example_breakpoints) Pm25_display
          example_metrics ''97204'' Good = []"
    by blast
  ultimately show ?thesis using example_selection example_message by simp
qed

section \<open>Properties of the classification\<close>

lemma from_measurement_mono:
  "v1 \<le> v2 \<Longrightarrow> from_measurement bp v1 \<le> from_measurement bp v2"
  by (simp add: from_measurement_def less_eq_Pm25_def)

text \<open>
  C8. The classification is total and monotonic: every concentration is in exactly one
  category, a greater concentration is never in a lower category, and with ascending
  breakpoints each category is the band between its lower breakpoint and the next one,
  the top category holding every value from its lower breakpoint on.
\<close>

theorem from_measurement_total_monotonic:
  "(\<exists>!c. from_measurement bp v = c)
   \<and> (v1 < v2 \<longrightarrow> from_measurement bp v1 \<le> from_measurement bp v2)
   \<and> (ascending bp \<longrightarrow>
        (from_measurement bp v = Good) = (v < moderate_from bp)
      \<and> (from_measurement bp v = Moderate) = (moderate_from bp \<le> v \<and> v < sensitive_from bp)
      \<and> (from_measurement bp v = Unhealthy_for_Sensitive)
          = (sensitive_from bp \<le> v \<and> v < unhealthy_from bp)
      \<and> (from_measurement bp v = Unhealthy)
          = (unhealthy_from bp \<le> v \<and> v < very_unhealthy_from bp)
      \<and> (from_measurement bp v = Very_Unhealthy)
          = (very_unhealthy_from bp \<le> v \<and> v < hazardous_from bp)
      \<and> (from_measurement bp v = Hazardous) = (hazardous_from bp \<le> v))"
proof -
  have "\<exists>!c. from_measurement bp v = c" by simp
  moreover have "v1 < v2 \<longrightarrow> from_measurement bp v1 \<le> from_measurement bp v2"
    by (simp add: from_measurement_mono)
  moreover have "ascending bp \<longrightarrow>
        (from_measurement bp v = Good) = (v < moderate_from bp)
      \<and> (from_measurement bp v = Moderate) = (moderate_from bp \<le> v \<and> v < sensitive_from bp)
      \<and> (from_measurement bp v = Unhealthy_for_Sensitive)
          = (sensitive_from bp \<le> v \<and> v < unhealthy_from bp)
      \<and> (from_measurement bp v = Unhealthy)
          = (unhealthy_from bp \<le> v \<and> v < very_unhealthy_from bp)
      \<and> (from_measurement bp v = Very_Unhealthy)
          = (very_unhealthy_from bp \<le> v \<and> v < hazardous_from bp)
      \<and> (from_measurement bp v = Hazardous) = (hazardous_from bp \<le> v)"
    by (auto simp: from_measurement_def ascending_def)
  ultimately show ?thesis by blast
qed

theorem from_measurement_total_monotonic_witness:
  "ascending example_breakpoints
   \<and> (40 :: real) < 300
   \<and> from_measurement example_breakpoints 40 = Unhealthy_for_Sensitive
   \<and> from_measurement example_breakpoints 300 = Hazardous
   \<and> from_measurement example_breakpoints 40 \<le> from_measurement example_breakpoints 300
   \<and> hazardous_from example_breakpoints \<le> 300"
proof -
  have a: "ascending example_breakpoints"
    by (simp add: ascending_def example_breakpoints_def)
  have b: "(40 :: real) < 300" by simp
  from from_measurement_total_monotonic [of example_breakpoints 300 40 300] a b
  have "from_measurement example_breakpoints 40 \<le> from_measurement example_breakpoints 300
        \<and> (from_measurement example_breakpoints 300 = Hazardous)
            = (hazardous_from example_breakpoints \<le> 300)"
    by simp
  moreover have "hazardous_from example_breakpoints \<le> 300"
    by (simp add: example_breakpoints_def)
  moreover have "from_measurement example_breakpoints 40 = Unhealthy_for_Sensitive"
    by (simp add: from_measurement_def example_breakpoints_def)
  ultimately show ?thesis using a b by (simp add: less_eq_Pm25_def)
qed

section \<open>Properties of the preferences\<close>

lemma list_getitem_nonneg:
  "0 \<le> i \<Longrightarrow> list_getitem xs i = (if i < int (length xs) then Inr (xs ! nat i) else Inl IndexError)"
  by (simp add: list_getitem_def)

text \<open>
  C9. Whenever both \<open>min_value\<close> and \<open>max_value\<close> are truthy (neither \<open>None\<close> nor \<open>0\<close>),
  also when \<open>min_value < max_value\<close>, the constructor raises \<open>RuntimeError\<close>; when
  either bound is \<open>None\<close> or \<open>0\<close> it succeeds and stores the arguments unchanged, with no
  check of the bounds against each other.
\<close>

theorem IntegerPreference_init_guard:
  "IntegerPreference_init dn ds df mn mx =
     (if (\<exists>a b. mn = Some a \<and> mx = Some b \<and> a \<noteq> 0 \<and> b \<noteq> 0) then Inl RuntimeError
      else Inr \<lparr>display_name = dn, description = ds, default = df,
                min_value = mn, max_value = mx\<rparr>)"
  by (cases mn; cases mx) (simp_all add: IntegerPreference_init_def truthy_def Let_def)

theorem IntegerPreference_init_guard_witness:
  "IntegerPreference_init ''Alert frequency'' ''Hours between alerts'' 2 (Some 1) (Some 24)
     = Inl RuntimeError
   \<and> IntegerPreference_init ''Alert frequency'' ''Hours between alerts'' 2 (Some 0) (Some 24)
     = Inr \<lparr>display_name = ''Alert frequency'', description = ''Hours between alerts'',
             default = 2, min_value = Some 0, max_value = Some 24\<rparr>
   \<and> IntegerPreference_init ''Alert frequency'' ''Hours between alerts'' 2 None (Some 24)
     = Inr \<lparr>display_name = ''Alert frequency'', description = ''Hours between alerts'',
             default = 2, min_value = None, max_value = Some 24\<rparr>"
  using IntegerPreference_init_guard [of "''Alert frequency''" "''Hours between alerts''" 2 "Some 1" "Some 24"]
    IntegerPreference_init_guard [of "''Alert frequency''" "''Hours between alerts''" 2 "Some 0" "Some 24"]
    IntegerPreference_init_guard [of "''Alert frequency''" "''Hours between alerts''" 2 None "Some 24"]
  by simp

text \<open>
  C10. \<open>ChoicesPreference.clean\<close> never raises: for every input string it returns a
  value. The value is the \<open>i\<close>-th choice (counting from 1) exactly when the string reads
  as an integer \<open>i\<close> with \<open>1 \<le> i \<le> len(choices)\<close>, and \<open>None\<close> in every other case
  (no integer, \<open>i \<le> 0\<close>, or \<open>i\<close> beyond the number of choices).
\<close>

theorem ChoicesPreference_clean_total:
  "ChoicesPreference_clean int_of choices s =
     Inr (case int_of s of
            None \<Rightarrow> None
          | Some i \<Rightarrow> if 1 \<le> i \<and> i \<le> int (length choices)
                      then Some (choices ! nat (i - 1)) else None)"
  by (cases "int_of s")
     (simp_all add: ChoicesPreference_clean_def clean_try_def list_getitem_nonneg)

theorem ChoicesPreference_clean_total_witness:
  "ChoicesPreference_clean int_of_str [''Daily'', ''Hourly'', ''Never''] '' 2 '' = Inr (Some ''Hourly'')
   \<and> ChoicesPreference_clean int_of_str [''Daily'', ''Hourly'', ''Never''] ''4'' = Inr None
   \<and> ChoicesPreference_clean int_of_str [''Daily'', ''Hourly'', ''Never''] ''0'' = Inr None
   \<and> ChoicesPreference_clean int_of_str [''Daily'', ''Hourly'', ''Never''] ''-1'' = Inr None
   \<and> ChoicesPreference_clean int_of_str [''Daily'', ''Hourly'', ''Never''] ''two'' = Inr None"
  using ChoicesPreference_clean_total [of int_of_str "[''Daily'', ''Hourly'', ''Never'']" "'' 2 ''"]
    ChoicesPreference_clean_total [of int_of_str "[''Daily'', ''Hourly'', ''Never'']" "''4''"]
    ChoicesPreference_clean_total [of int_of_str "[''Daily'', ''Hourly'', ''Never'']" "''0''"]
    ChoicesPreference_clean_total [of int_of_str "[''Daily'', ''Hourly'', ''Never'']" "''-1''"]
    ChoicesPreference_clean_total [of int_of_str "[''Daily'', ''Hourly'', ''Never'']" "''two''"]
  by (simp add: int_of_str_def strip_def is_space_def digits_def digit_of_def)

end
